theory Spec2Isabelle
  imports Main
begin

section \<open>Strings\<close>

text \<open>
  A TypeScript string is a sequence of UTF-16 code units and \<open>.length\<close> counts them.
  The model uses \<^typ>\<open>string\<close>: one \<^typ>\<open>char\<close> per code unit, for the code units
  0 to 255. Every literal of the source (messages, codes, MIME types, patterns) lies in
  that range.
\<close>

fun startsWith :: "string \<Rightarrow> string \<Rightarrow> bool" where
  "startsWith s [] = True"
| "startsWith [] (p # ps) = False"
| "startsWith (c # cs) (p # ps) = (c = p \<and> startsWith cs ps)"

text \<open>\<open>String.prototype.includes\<close>: the search string occurs at some position.\<close>

fun str_includes :: "string \<Rightarrow> string \<Rightarrow> bool" where
  "str_includes [] sub = (sub = [])"
| "str_includes (c # cs) sub = (startsWith (c # cs) sub \<or> str_includes cs sub)"

text \<open>
  White space as \<open>String.prototype.trim\<close> and the pattern class \<open>\s\<close> see it, among
  the code units below 256: TAB, LF, VT, FF, CR, SPACE and NBSP.
\<close>

definition isWhiteSpace :: "char \<Rightarrow> bool" where
  "isWhiteSpace c = ((of_char c :: nat) \<in> {9, 10, 11, 12, 13, 32, 160})"

definition trim :: "string \<Rightarrow> string" where
  "trim s = rev (dropWhile isWhiteSpace (rev (dropWhile isWhiteSpace s)))"

definition inRange :: "char \<Rightarrow> char \<Rightarrow> char \<Rightarrow> bool" where
  "inRange lo hi c = ((of_char lo :: nat) \<le> of_char c \<and> (of_char c :: nat) \<le> of_char hi)"

subsection \<open>Decimal numerals\<close>

definition digit :: "nat \<Rightarrow> char" where
  "digit d = ''0123456789'' ! d"

text \<open>The decimal numeral a template literal prints for a natural number.\<close>

function showNat :: "nat \<Rightarrow> string" where
  "showNat n = (if n < 10 then [digit n] else showNat (n div 10) @ [digit (n mod 10)])"
  by pat_completeness auto
termination
  by (relation "measure id") auto

declare showNat.simps [simp del]

section \<open>Values of unknown type\<close>

text \<open>
  The parsers take \<open>unknown\<close> or \<open>any\<close>: whatever was thrown or returned by the
  backend client. \<open>JsValue\<close> has the shapes they tell apart: primitives, a plain
  object as its list of properties, and an instance of \<open>Error\<close> with its message.
  A number is given by the decimal form in which \<open>String\<close> prints it, such as
  \<open>42\<close>, \<open>-1.5\<close>, \<open>1e+21\<close>, \<open>NaN\<close> or \<open>Infinity\<close>; zero and minus zero are
  both \<open>0\<close>.
\<close>

datatype JsValue =
    Undefined
  | Null
  | Str string
  | Num string
  | Bool bool
  | Obj "(string \<times> JsValue) list"
  | ErrorInstance string

text \<open>\<open>value?.key\<close>: a missing property, and any property of null or undefined, is undefined.\<close>

fun getProp :: "JsValue \<Rightarrow> string \<Rightarrow> JsValue" where
  "getProp (Obj props) k = (case map_of props k of Some v \<Rightarrow> v | None \<Rightarrow> Undefined)"
| "getProp (ErrorInstance m) k = (if k = ''message'' then Str m else Undefined)"
| "getProp v k = Undefined"

fun truthy :: "JsValue \<Rightarrow> bool" where
  "truthy Undefined = False"
| "truthy Null = False"
| "truthy (Str s) = (s \<noteq> [])"
| "truthy (Num n) = (n \<noteq> ''0'' \<and> n \<noteq> ''NaN'')"
| "truthy (Bool b) = b"
| "truthy (Obj props) = True"
| "truthy (ErrorInstance m) = True"

text \<open>\<open>'message' in error\<close> after the test that \<open>error\<close> is a non-null object.\<close>

fun hasMessage :: "JsValue \<Rightarrow> bool" where
  "hasMessage (Obj props) = (''message'' \<in> fst ` set props)"
| "hasMessage v = False"

section \<open>utils/errorHandler.ts\<close>

text \<open>
  This module has an \<open>ErrorCode\<close> enum of its own, with other members than the one of
  \<open>types/api.ts\<close>; it is \<open>AppErrorCode\<close> here, and its factories carry the suffix
  \<open>_AppError\<close> where \<open>types/api.ts\<close> has one of the same name.
\<close>

datatype AppErrorCode =
    NETWORK_ERROR
  | API_ERROR
  | TIMEOUT_ERROR
  | UNAUTHORIZED
  | FORBIDDEN
  | SESSION_EXPIRED
  | INVALID_CREDENTIALS
  | VALIDATION_ERROR
  | INVALID_EMAIL
  | INVALID_PASSWORD
  | CONTENT_TOO_LONG
  | CONTENT_EMPTY
  | MEDIA_UPLOAD_FAILED
  | MEDIA_TOO_LARGE
  | INVALID_MEDIA_TYPE
  | MEDIA_COMPRESSION_FAILED
  | DATABASE_ERROR
  | NOT_FOUND
  | DUPLICATE_ENTRY
  | UNKNOWN_ERROR

datatype ErrorSeverity = INFO | WARNING | ERROR | CRITICAL

text \<open>
  \<open>ErrorMetadata\<close> with the keys this module writes (\<open>ctxt\<close> is the key
  \<open>context\<close>). A key that an object literal
  does not mention is \<open>None\<close>; \<open>{ context, code, details }\<close> mentions all three, with
  whatever value each variable holds.
\<close>

record ErrorMetadata =
  userId :: "string option"
  postId :: "string option"
  timestamp :: "string option"
  ctxt :: "string option"
  code :: "JsValue option"
  details :: "JsValue option"
  originalData :: "JsValue option"

definition noMetadata :: ErrorMetadata where
  "noMetadata =
     \<lparr> userId = None, postId = None, timestamp = None, ctxt = None, code = None,
       details = None, originalData = None \<rparr>"

text \<open>
  The fields of class \<open>AppError\<close>. The constructor also sets the constant \<open>name\<close>,
  captures a stack trace and writes the error to the console; none of that is read
  back by the functions below.
\<close>

record AppError =
  message :: string
  code :: AppErrorCode
  severity :: ErrorSeverity
  isOperational :: bool
  metadata :: ErrorMetadata
  originalError :: "JsValue option"

text \<open>
  \<open>new AppError(message, code, severity, isOperational, metadata, originalError)\<close> at
  clock reading \<open>now\<close>: the metadata keeps a timestamp it already has.
\<close>

definition new_AppError ::
  "string \<Rightarrow> string \<Rightarrow> AppErrorCode \<Rightarrow> ErrorSeverity \<Rightarrow> bool \<Rightarrow> ErrorMetadata option
     \<Rightarrow> JsValue option \<Rightarrow> AppError" where
  "new_AppError now m c sev op md orig =
     \<lparr> message = m, code = c, severity = sev, isOperational = op,
       metadata =
         (case md of
            None \<Rightarrow> noMetadata\<lparr> timestamp := Some now \<rparr>
          | Some d \<Rightarrow>
              d\<lparr> timestamp := (case timestamp d of Some t \<Rightarrow> Some t | None \<Rightarrow> Some now) \<rparr>),
       originalError = orig \<rparr>"

definition networkError_AppError ::
  "string \<Rightarrow> string \<Rightarrow> JsValue option \<Rightarrow> ErrorMetadata option \<Rightarrow> AppError" where
  "networkError_AppError now m orig md =
     new_AppError now m NETWORK_ERROR ERROR True md orig"

text \<open>What was thrown or passed in: an instance of \<open>AppError\<close>, or any other value.\<close>

datatype Thrown = AppErrorInstance AppError | Value JsValue

text \<open>
  \<open>String(value)\<close>. A primitive has a fixed form. An object is converted by its own
  \<open>toString\<close> and \<open>valueOf\<close> methods, which are not code of this repository:
  \<open>objectToString\<close> gives the string they produce (\<open>Inr\<close>) or the value they
  throw (\<open>Inl\<close>), which is a \<open>TypeError\<close> when neither yields a primitive.
\<close>

fun stringOf :: "(JsValue \<Rightarrow> Thrown + string) \<Rightarrow> JsValue \<Rightarrow> Thrown + string" where
  "stringOf objectToString Undefined = Inr ''undefined''"
| "stringOf objectToString Null = Inr ''null''"
| "stringOf objectToString (Str s) = Inr s"
| "stringOf objectToString (Num n) = Inr n"
| "stringOf objectToString (Bool b) = Inr (if b then ''true'' else ''false'')"
| "stringOf objectToString (Obj props) = objectToString (Obj props)"
| "stringOf objectToString (ErrorInstance m) = objectToString (ErrorInstance m)"

text \<open>
  \<open>parseError\<close> returns an \<open>AppError\<close> (\<open>Inr\<close>), unless the conversion of
  \<open>error.message\<close> to a string throws (\<open>Inl\<close>).
\<close>

definition parseError ::
  "string \<Rightarrow> (JsValue \<Rightarrow> Thrown + string) \<Rightarrow> Thrown \<Rightarrow> string option \<Rightarrow> Thrown + AppError" where
  "parseError now objectToString error ctx =
     (case error of
        AppErrorInstance e \<Rightarrow> Inr e
      | Value (ErrorInstance m) \<Rightarrow>
          Inr (new_AppError now m UNKNOWN_ERROR ERROR True
                 (Some (noMetadata\<lparr> ctxt := ctx \<rparr>)) (Some (ErrorInstance m)))
      | Value (Str s) \<Rightarrow>
          Inr (new_AppError now s UNKNOWN_ERROR ERROR True
                 (Some (noMetadata\<lparr> ctxt := ctx \<rparr>)) None)
      | Value v \<Rightarrow>
          if hasMessage v then
            (case stringOf objectToString (getProp v ''message'') of
               Inl t \<Rightarrow> Inl t
             | Inr m \<Rightarrow>
                 Inr (new_AppError now m UNKNOWN_ERROR ERROR True
                        (Some (noMetadata\<lparr> ctxt := ctx, originalData := Some v \<rparr>)) None))
          else
            Inr (new_AppError now ''An unknown error occurred'' UNKNOWN_ERROR ERROR True
                   (Some (noMetadata\<lparr> ctxt := ctx, originalData := Some v \<rparr>)) None))"

text \<open>
  A call of \<open>message.includes\<close> on a value that is not a string raises a
  \<open>TypeError\<close>, which the parsers do not catch.
\<close>

datatype 'a Completion = Returns 'a | ThrowsTypeError

definition parseSupabaseError :: "string \<Rightarrow> JsValue \<Rightarrow> string option \<Rightarrow> AppError Completion" where
  "parseSupabaseError now error ctx =
     (let message = (if truthy (getProp error ''message'') then getProp error ''message''
                     else Str ''Database operation failed'');
          code = getProp error ''code'';
          details = getProp error ''details'';
          md = Some (noMetadata\<lparr> ctxt := ctx, ErrorMetadata.code := Some code,
                                 details := Some details \<rparr>)
      in case message of
           Str m \<Rightarrow>
             if str_includes m ''Invalid login credentials'' then
               Returns (new_AppError now ''Invalid email or password''
                          INVALID_CREDENTIALS INFO True md None)
             else if str_includes m ''JWT'' \<or> str_includes m ''token'' then
               Returns (new_AppError now ''Your session has expired. Please log in again.''
                          SESSION_EXPIRED WARNING True md None)
             else if code = Str ''23505'' then
               Returns (new_AppError now ''This item already exists''
                          DUPLICATE_ENTRY INFO True md None)
             else if code = Str ''23503'' then
               Returns (new_AppError now ''Referenced item not found''
                          NOT_FOUND ERROR True md None)
             else if str_includes m ''permission denied'' \<or> str_includes m ''RLS'' then
               Returns (new_AppError now ''You do not have permission to perform this action''
                          FORBIDDEN WARNING True md None)
             else
               Returns (new_AppError now m DATABASE_ERROR ERROR True md None)
         | _ \<Rightarrow> ThrowsTypeError)"

definition parseNetworkError :: "string \<Rightarrow> JsValue \<Rightarrow> string option \<Rightarrow> AppError Completion" where
  "parseNetworkError now error ctx =
     (let md = Some (noMetadata\<lparr> ctxt := ctx \<rparr>)
      in case getProp error ''message'' of
           Str m \<Rightarrow>
             if str_includes m ''timeout'' then
               Returns (new_AppError now
                          ''Request timed out. Please check your connection and try again.''
                          TIMEOUT_ERROR ERROR True md None)
             else if str_includes m ''Network request failed'' then
               Returns (new_AppError now
                          ''Unable to connect. Please check your internet connection.''
                          NETWORK_ERROR ERROR True md None)
             else
               Returns (networkError_AppError now
                          ''A network error occurred. Please try again.'' (Some error) md)
         | Undefined \<Rightarrow>
             Returns (networkError_AppError now
                        ''A network error occurred. Please try again.'' (Some error) md)
         | Null \<Rightarrow>
             Returns (networkError_AppError now
                        ''A network error occurred. Please try again.'' (Some error) md)
         | _ \<Rightarrow> ThrowsTypeError)"

section \<open>types/api.ts: error taxonomy\<close>

datatype ErrorCode =
    NETWORK_ERROR
  | TIMEOUT_ERROR
  | CONNECTION_ERROR
  | UNAUTHORIZED
  | FORBIDDEN
  | SESSION_EXPIRED
  | INVALID_CREDENTIALS
  | VALIDATION_ERROR
  | INVALID_INPUT
  | MISSING_REQUIRED_FIELD
  | MEDIA_UPLOAD_FAILED
  | MEDIA_TOO_LARGE
  | INVALID_MEDIA_TYPE
  | MEDIA_PROCESSING_FAILED
  | DATABASE_ERROR
  | RECORD_NOT_FOUND
  | DUPLICATE_RECORD
  | RATE_LIMIT_EXCEEDED
  | CONTENT_MODERATION_FAILED
  | ALREADY_REACTED
  | UNKNOWN_ERROR
  | SERVER_ERROR

text \<open>
  \<open>ApiError\<close> is a union of object shapes that share \<open>code\<close>, \<open>message\<close> and
  \<open>timestamp\<close>. The model is the object itself: one record with every property of the
  union, an optional or absent property being \<open>None\<close>. Numbers of the source that count
  seconds, bytes or requests are integers.
\<close>

record ApiError =
  code :: ErrorCode
  message :: string
  timestamp :: string
  field :: "string option"
  details :: "(string \<times> string list) list option"
  retryable :: "bool option"
  retry_after :: "int option"
  redirect_to_login :: "bool option"
  max_size :: "int option"
  allowed_types :: "string list option"
  file_name :: "string option"
  query :: "string option"
  limit :: "int option"
  remaining :: "int option"
  original_error :: "string option"
  stack_trace :: "string option"

text \<open>The properties every error object has; each factory adds its own to these.\<close>

definition baseError :: "ErrorCode \<Rightarrow> string \<Rightarrow> string \<Rightarrow> ApiError" where
  "baseError c m now =
     \<lparr> code = c, message = m, timestamp = now, field = None, details = None,
       retryable = None, retry_after = None, redirect_to_login = None, max_size = None,
       allowed_types = None, file_name = None, query = None, limit = None,
       remaining = None, original_error = None, stack_trace = None \<rparr>"

datatype ('a, 'e) Result = Success 'a | Failure 'e

definition isSuccess :: "('a, 'e) Result \<Rightarrow> bool" where
  "isSuccess result = (case result of Success _ \<Rightarrow> True | Failure _ \<Rightarrow> False)"

definition isError :: "('a, 'e) Result \<Rightarrow> bool" where
  "isError result = (case result of Success _ \<Rightarrow> False | Failure _ \<Rightarrow> True)"

definition isValidationError :: "ApiError \<Rightarrow> bool" where
  "isValidationError error =
     (code error = VALIDATION_ERROR \<or> code error = INVALID_INPUT
      \<or> code error = MISSING_REQUIRED_FIELD)"

definition isNetworkError :: "ApiError \<Rightarrow> bool" where
  "isNetworkError error =
     (code error = NETWORK_ERROR \<or> code error = TIMEOUT_ERROR
      \<or> code error = CONNECTION_ERROR)"

definition isRateLimitError :: "ApiError \<Rightarrow> bool" where
  "isRateLimitError error = (code error = RATE_LIMIT_EXCEEDED)"

text \<open>
  \<open>isRetryableError\<close> returns \<open>error.retryable\<close> for the network family. The type
  \<open>NetworkError\<close> makes that property a mandatory boolean; the model says when the
  returned value is \<open>true\<close>.
\<close>

definition isRetryableError :: "ApiError \<Rightarrow> bool" where
  "isRetryableError error =
     (if isNetworkError error then retryable error = Some True
      else if isRateLimitError error then True
      else code error = SERVER_ERROR)"

text \<open>
  The factories stamp \<open>new Date().toISOString()\<close>; the clock reading is the parameter
  \<open>now\<close>.
\<close>

definition validationError ::
  "string \<Rightarrow> string \<Rightarrow> string option \<Rightarrow> (string \<times> string list) list option \<Rightarrow> ApiError" where
  "validationError now m f d = (baseError VALIDATION_ERROR m now)\<lparr> field := f, details := d \<rparr>"

text \<open>An argument the caller leaves out is \<open>None\<close>; \<open>retryable\<close> then defaults to true.\<close>

definition networkError :: "string \<Rightarrow> string \<Rightarrow> bool option \<Rightarrow> int option \<Rightarrow> ApiError" where
  "networkError now m r ra =
     (baseError NETWORK_ERROR m now)
       \<lparr> retryable := Some (case r of None \<Rightarrow> True | Some b \<Rightarrow> b), retry_after := ra \<rparr>"

definition rateLimitError :: "string \<Rightarrow> string \<Rightarrow> int \<Rightarrow> int \<Rightarrow> int \<Rightarrow> ApiError" where
  "rateLimitError now m ra lim rem =
     (baseError RATE_LIMIT_EXCEEDED m now)
       \<lparr> retry_after := Some ra, limit := Some lim, remaining := Some rem \<rparr>"

section \<open>types/validation.ts: branded values and constraints\<close>

text \<open>
  A branded type is the raw string with a compile-time tag. The tag is a phantom type
  parameter here, and \<open>raw\<close> reads the primitive back.
\<close>

datatype 'brand Branded = Brand (raw: string)

typedecl ValidEmail_brand
typedecl ValidUsername_brand
typedecl ValidPassword_brand
typedecl ValidPostContent_brand
typedecl ValidCommentContent_brand
typedecl ValidMediaUrl_brand
typedecl ValidBio_brand

type_synonym ValidEmail = "ValidEmail_brand Branded"
type_synonym ValidUsername = "ValidUsername_brand Branded"
type_synonym ValidPassword = "ValidPassword_brand Branded"
type_synonym ValidPostContent = "ValidPostContent_brand Branded"
type_synonym ValidCommentContent = "ValidCommentContent_brand Branded"
type_synonym ValidMediaUrl = "ValidMediaUrl_brand Branded"
type_synonym ValidBio = "ValidBio_brand Branded"

type_synonym ValidationError = ApiError
type_synonym 'a ValidationResult = "('a, ValidationError) Result"

text \<open>
  The two patterns of \<open>VALIDATION_CONSTRAINTS\<close> are anchored at both ends and are
  sequences of single characters and of \<open>+\<close>-repeated character classes.
  \<open>pattern_test\<close> is \<open>RegExp.prototype.test\<close> for such a pattern: the whole string
  has to be consumed, and a repetition may stop after any positive number of characters.
\<close>

datatype pattern_item = One "char \<Rightarrow> bool" | Many "char \<Rightarrow> bool"

fun pattern_test :: "pattern_item list \<Rightarrow> string \<Rightarrow> bool" where
  "pattern_test [] s = (s = [])"
| "pattern_test (One p # r) [] = False"
| "pattern_test (One p # r) (c # cs) = (p c \<and> pattern_test r cs)"
| "pattern_test (Many p # r) [] = False"
| "pattern_test (Many p # r) (c # cs) =
     (p c \<and> (pattern_test r cs \<or> pattern_test (Many p # r) cs))"

text \<open>An unanchored pattern of one character class finds a match at any position.\<close>

definition class_test :: "(char \<Rightarrow> bool) \<Rightarrow> string \<Rightarrow> bool" where
  "class_test p s = list_ex p s"

definition USERNAME_MIN_LENGTH :: nat where "USERNAME_MIN_LENGTH = 3"
definition USERNAME_MAX_LENGTH :: nat where "USERNAME_MAX_LENGTH = 30"

text \<open>\<open>/^[a-zA-Z0-9_]+$/\<close>\<close>

definition USERNAME_PATTERN :: "pattern_item list" where
  "USERNAME_PATTERN =
     [Many (\<lambda>c. inRange CHR ''a'' CHR ''z'' c \<or> inRange CHR ''A'' CHR ''Z'' c
                 \<or> inRange CHR ''0'' CHR ''9'' c \<or> c = CHR ''_'')]"

definition PASSWORD_MIN_LENGTH :: nat where "PASSWORD_MIN_LENGTH = 8"
definition PASSWORD_MAX_LENGTH :: nat where "PASSWORD_MAX_LENGTH = 128"
definition PASSWORD_REQUIRE_UPPERCASE :: bool where "PASSWORD_REQUIRE_UPPERCASE = True"
definition PASSWORD_REQUIRE_LOWERCASE :: bool where "PASSWORD_REQUIRE_LOWERCASE = True"
definition PASSWORD_REQUIRE_NUMBER :: bool where "PASSWORD_REQUIRE_NUMBER = True"
definition PASSWORD_REQUIRE_SPECIAL :: bool where "PASSWORD_REQUIRE_SPECIAL = False"

definition POST_CONTENT_MIN_LENGTH :: nat where "POST_CONTENT_MIN_LENGTH = 1"
definition POST_CONTENT_MAX_LENGTH :: nat where "POST_CONTENT_MAX_LENGTH = 2000"
definition COMMENT_CONTENT_MIN_LENGTH :: nat where "COMMENT_CONTENT_MIN_LENGTH = 1"
definition COMMENT_CONTENT_MAX_LENGTH :: nat where "COMMENT_CONTENT_MAX_LENGTH = 500"
definition BIO_MAX_LENGTH :: nat where "BIO_MAX_LENGTH = 160"

text \<open>\<open>/^[^\s@]+@[^\s@]+\.[^\s@]+$/\<close>\<close>

definition notSpaceOrAt :: "char \<Rightarrow> bool" where
  "notSpaceOrAt c = (\<not> isWhiteSpace c \<and> c \<noteq> CHR ''@'')"

definition EMAIL_PATTERN :: "pattern_item list" where
  "EMAIL_PATTERN =
     [Many notSpaceOrAt, One (\<lambda>c. c = CHR ''@''), Many notSpaceOrAt,
      One (\<lambda>c. c = CHR ''.''), Many notSpaceOrAt]"

definition MAX_FILE_SIZE :: int where "MAX_FILE_SIZE = 10 * 1024 * 1024"
definition MAX_VIDEO_SIZE :: int where "MAX_VIDEO_SIZE = 50 * 1024 * 1024"

definition ALLOWED_IMAGE_TYPES :: "string list" where
  "ALLOWED_IMAGE_TYPES = [''image/jpeg'', ''image/png'', ''image/webp'', ''image/heic'']"

definition ALLOWED_VIDEO_TYPES :: "string list" where
  "ALLOWED_VIDEO_TYPES = [''video/mp4'', ''video/quicktime'']"

subsection \<open>Numbers in messages\<close>

text \<open>
  \<open>(bytes / (1024 * 1024)).toFixed(2)\<close> for a byte count that is not negative: the
  quotient rounded to hundredths, halves upwards, with two decimals. The two limits it
  is applied to are whole megabytes, where the floating-point quotient is exact.
\<close>

definition megabytesFixed2 :: "int \<Rightarrow> string" where
  "megabytesFixed2 bytes =
     (let h = nat ((bytes * 200 + 1024 * 1024) div (2 * 1024 * 1024))
      in showNat (h div 100) @ ''.'' @ [digit (h mod 100 div 10), digit (h mod 10)])"

text \<open>\<open>Array.prototype.join\<close>\<close>

fun join :: "string \<Rightarrow> string list \<Rightarrow> string" where
  "join sep [] = []"
| "join sep [x] = x"
| "join sep (x # y # ys) = x @ sep @ join sep (y # ys)"

subsection \<open>Input shapes\<close>

text \<open>\<open>size\<close> is the byte count of the file, an integer.\<close>

record MediaUploadInput =
  uri :: string
  type :: string
  name :: string
  size :: int

record ValidatedMediaUploadInput =
  uri :: ValidMediaUrl
  type :: string
  name :: string
  size :: int

subsection \<open>Field validators\<close>

text \<open>
  Each validator takes the clock reading \<open>now\<close> that \<open>validationError\<close> stamps.
  \<open>!s\<close> on a string is true for the empty string only.
\<close>

definition validateEmail :: "string \<Rightarrow> string \<Rightarrow> ValidEmail ValidationResult" where
  "validateEmail now email =
     (if email = [] \<or> length (trim email) = 0 then
        Failure (validationError now ''Email is required'' (Some ''email'') None)
      else if \<not> pattern_test EMAIL_PATTERN email then
        Failure (validationError now ''Invalid email format'' (Some ''email'') None)
      else Success (Brand email))"

definition validateUsername :: "string \<Rightarrow> string \<Rightarrow> ValidUsername ValidationResult" where
  "validateUsername now username =
     (if username = [] \<or> length (trim username) = 0 then
        Failure (validationError now ''Username is required'' (Some ''username'') None)
      else if length username < USERNAME_MIN_LENGTH then
        Failure (validationError now
          (''Username must be at least '' @ showNat USERNAME_MIN_LENGTH @ '' characters'')
          (Some ''username'') None)
      else if length username > USERNAME_MAX_LENGTH then
        Failure (validationError now
          (''Username must not exceed '' @ showNat USERNAME_MAX_LENGTH @ '' characters'')
          (Some ''username'') None)
      else if \<not> pattern_test USERNAME_PATTERN username then
        Failure (validationError now
          ''Username can only contain letters, numbers, and underscores''
          (Some ''username'') None)
      else Success (Brand username))"

text \<open>The list \<open>errors\<close> of \<open>validatePassword\<close>, in the order of its four pushes.\<close>

definition passwordErrors :: "string \<Rightarrow> string list" where
  "passwordErrors password =
     (if PASSWORD_REQUIRE_UPPERCASE \<and> \<not> class_test (inRange CHR ''A'' CHR ''Z'') password
      then [''at least one uppercase letter''] else [])
     @ (if PASSWORD_REQUIRE_LOWERCASE \<and> \<not> class_test (inRange CHR ''a'' CHR ''z'') password
        then [''at least one lowercase letter''] else [])
     @ (if PASSWORD_REQUIRE_NUMBER \<and> \<not> class_test (inRange CHR ''0'' CHR ''9'') password
        then [''at least one number''] else [])
     @ (if PASSWORD_REQUIRE_SPECIAL
           \<and> \<not> class_test (\<lambda>c. c \<in> set ''!@#$%^&*(),.?\":{}|<>'') password
        then [''at least one special character''] else [])"

definition validatePassword :: "string \<Rightarrow> string \<Rightarrow> ValidPassword ValidationResult" where
  "validatePassword now password =
     (if password = [] \<or> length password = 0 then
        Failure (validationError now ''Password is required'' (Some ''password'') None)
      else if length password < PASSWORD_MIN_LENGTH then
        Failure (validationError now
          (''Password must be at least '' @ showNat PASSWORD_MIN_LENGTH @ '' characters'')
          (Some ''password'') None)
      else if length password > PASSWORD_MAX_LENGTH then
        Failure (validationError now
          (''Password must not exceed '' @ showNat PASSWORD_MAX_LENGTH @ '' characters'')
          (Some ''password'') None)
      else if length (passwordErrors password) > 0 then
        Failure (validationError now
          (''Password must contain '' @ join '', '' (passwordErrors password))
          (Some ''password'') None)
      else Success (Brand password))"

definition validatePostContent :: "string \<Rightarrow> string \<Rightarrow> ValidPostContent ValidationResult" where
  "validatePostContent now content =
     (if content = [] \<or> length (trim content) = 0 then
        Failure (validationError now ''Post content is required'' (Some ''content'') None)
      else if length content < POST_CONTENT_MIN_LENGTH then
        Failure (validationError now
          (''Post must be at least '' @ showNat POST_CONTENT_MIN_LENGTH @ '' character'')
          (Some ''content'') None)
      else if length content > POST_CONTENT_MAX_LENGTH then
        Failure (validationError now
          (''Post must not exceed '' @ showNat POST_CONTENT_MAX_LENGTH @ '' characters'')
          (Some ''content'') None)
      else Success (Brand content))"

definition validateCommentContent ::
  "string \<Rightarrow> string \<Rightarrow> ValidCommentContent ValidationResult" where
  "validateCommentContent now content =
     (if content = [] \<or> length (trim content) = 0 then
        Failure (validationError now ''Comment content is required'' (Some ''content'') None)
      else if length content < COMMENT_CONTENT_MIN_LENGTH then
        Failure (validationError now
          (''Comment must be at least '' @ showNat COMMENT_CONTENT_MIN_LENGTH @ '' character'')
          (Some ''content'') None)
      else if length content > COMMENT_CONTENT_MAX_LENGTH then
        Failure (validationError now
          (''Comment must not exceed '' @ showNat COMMENT_CONTENT_MAX_LENGTH @ '' characters'')
          (Some ''content'') None)
      else Success (Brand content))"

definition validateBio :: "string \<Rightarrow> string \<Rightarrow> ValidBio ValidationResult" where
  "validateBio now bio =
     (if length bio > BIO_MAX_LENGTH then
        Failure (validationError now
          (''Bio must not exceed '' @ showNat BIO_MAX_LENGTH @ '' characters'')
          (Some ''bio'') None)
      else Success (Brand bio))"

text \<open>
  \<open>new URL(url)\<close> is the platform's parser, not code of this repository:
  \<open>parsesAsUrl url\<close> says that it returns rather than throws.
\<close>

definition validateMediaUrl ::
  "string \<Rightarrow> (string \<Rightarrow> bool) \<Rightarrow> string \<Rightarrow> ValidMediaUrl ValidationResult" where
  "validateMediaUrl now parsesAsUrl url =
     (if url = [] \<or> length (trim url) = 0 then
        Failure (validationError now ''Media URL is required'' (Some ''media_url'') None)
      else if \<not> parsesAsUrl url then
        Failure (validationError now ''Invalid URL format'' (Some ''media_url'') None)
      else Success (Brand url))"

definition validateMediaFile ::
  "string \<Rightarrow> (string \<Rightarrow> bool) \<Rightarrow> MediaUploadInput
     \<Rightarrow> ValidatedMediaUploadInput ValidationResult" where
  "validateMediaFile now parsesAsUrl input =
     (let isVideo = (MediaUploadInput.type input \<in> set ALLOWED_VIDEO_TYPES);
          maxSize = (if isVideo then MAX_VIDEO_SIZE else MAX_FILE_SIZE)
      in if MediaUploadInput.size input > maxSize then
           Failure (validationError now
             (''File size must not exceed '' @ megabytesFixed2 maxSize @ ''MB'')
             (Some ''media'') None)
         else if MediaUploadInput.type input
                   \<notin> set (ALLOWED_IMAGE_TYPES @ ALLOWED_VIDEO_TYPES) then
           Failure (validationError now
             ''Invalid file type. Only images and videos are allowed.'' (Some ''media'') None)
         else
           (case validateMediaUrl now parsesAsUrl (MediaUploadInput.uri input) of
              Failure e \<Rightarrow> Failure e
            | Success u \<Rightarrow>
                Success \<lparr> uri = u, type = MediaUploadInput.type input,
                          name = MediaUploadInput.name input,
                          size = MediaUploadInput.size input \<rparr>))"

text \<open>The data of a successful \<open>validatePasswordsMatch\<close> is the constant \<open>true\<close>.\<close>

definition validatePasswordsMatch :: "string \<Rightarrow> string \<Rightarrow> string \<Rightarrow> bool ValidationResult" where
  "validatePasswordsMatch now password confirmation =
     (if password \<noteq> confirmation then
        Failure (validationError now ''Passwords do not match''
                   (Some ''password_confirmation'') None)
      else Success True)"

subsection \<open>Composite validators\<close>

datatype MediaType = image | video

record CreatePostInput =
  content :: string
  media_url :: "string option"
  media_type :: "MediaType option"
  thumbnail_url :: "string option"

record ValidatedCreatePostInput =
  content :: ValidPostContent
  media_url :: "ValidMediaUrl option"
  media_type :: "MediaType option"
  thumbnail_url :: "ValidMediaUrl option"



section \<open>utils/errorHandler.ts: messages for the user\<close>

text \<open>\<open>a || b\<close> on strings: the first one that is not empty.\<close>

definition orElse :: "string \<Rightarrow> string \<Rightarrow> string" where
  "orElse a b = (if a \<noteq> [] then a else b)"

fun messages :: "string \<Rightarrow> AppErrorCode \<Rightarrow> string" where
  "messages d AppErrorCode.NETWORK_ERROR =
     ''Unable to connect. Please check your internet connection and try again.''"
| "messages d API_ERROR = ''Something went wrong. Please try again later.''"
| "messages d AppErrorCode.TIMEOUT_ERROR = ''Request timed out. Please try again.''"
| "messages d AppErrorCode.UNAUTHORIZED = ''Please log in to continue.''"
| "messages d AppErrorCode.FORBIDDEN = ''You do not have permission to perform this action.''"
| "messages d AppErrorCode.SESSION_EXPIRED = ''Your session has expired. Please log in again.''"
| "messages d AppErrorCode.INVALID_CREDENTIALS = ''Invalid email or password. Please try again.''"
| "messages d AppErrorCode.VALIDATION_ERROR = orElse d ''Please check your input and try again.''"
| "messages d INVALID_EMAIL = ''Please enter a valid email address.''"
| "messages d INVALID_PASSWORD = ''Password must be at least 8 characters long.''"
| "messages d CONTENT_TOO_LONG = ''Your content is too long. Please shorten it.''"
| "messages d CONTENT_EMPTY = ''Please enter some content.''"
| "messages d AppErrorCode.MEDIA_UPLOAD_FAILED = ''Failed to upload media. Please try again.''"
| "messages d AppErrorCode.MEDIA_TOO_LARGE = ''File is too large. Please choose a smaller file.''"
| "messages d AppErrorCode.INVALID_MEDIA_TYPE =
     ''Invalid file type. Please choose an image or video.''"
| "messages d MEDIA_COMPRESSION_FAILED =
     ''Failed to process media. Please try a different file.''"
| "messages d AppErrorCode.DATABASE_ERROR = ''Something went wrong. Please try again.''"
| "messages d NOT_FOUND = ''Item not found.''"
| "messages d DUPLICATE_ENTRY = ''This item already exists.''"
| "messages d AppErrorCode.UNKNOWN_ERROR =
     orElse d ''An unexpected error occurred. Please try again.''"

definition getUserFriendlyMessage :: "AppErrorCode \<Rightarrow> string \<Rightarrow> string" where
  "getUserFriendlyMessage c defaultMessage =
     orElse (messages defaultMessage c)
       (orElse defaultMessage ''An error occurred. Please try again.'')"

definition getUserMessage :: "AppError \<Rightarrow> string" where
  "getUserMessage e = getUserFriendlyMessage (AppError.code e) (AppError.message e)"

section \<open>hooks/useErrorHandler.ts\<close>

fun titles :: "AppErrorCode \<Rightarrow> string option" where
  "titles AppErrorCode.NETWORK_ERROR = Some ''Connection Error''"
| "titles AppErrorCode.TIMEOUT_ERROR = Some ''Request Timeout''"
| "titles AppErrorCode.UNAUTHORIZED = Some ''Authentication Required''"
| "titles AppErrorCode.FORBIDDEN = Some ''Access Denied''"
| "titles AppErrorCode.SESSION_EXPIRED = Some ''Session Expired''"
| "titles AppErrorCode.INVALID_CREDENTIALS = Some ''Invalid Credentials''"
| "titles AppErrorCode.VALIDATION_ERROR = Some ''Validation Error''"
| "titles AppErrorCode.MEDIA_UPLOAD_FAILED = Some ''Upload Failed''"
| "titles AppErrorCode.MEDIA_TOO_LARGE = Some ''File Too Large''"
| "titles AppErrorCode.DATABASE_ERROR = Some ''Database Error''"
| "titles NOT_FOUND = Some ''Not Found''"
| "titles c = None"

definition getErrorTitle :: "AppErrorCode \<Rightarrow> string" where
  "getErrorTitle c = (case titles c of Some t \<Rightarrow> t | None \<Rightarrow> ''Error'')"

text \<open>
  What one call of \<open>Alert.alert\<close> shows: title, message and the texts of its buttons.
\<close>

record AlertShown =
  title :: string
  body :: string
  buttons :: "string list"

text \<open>
  The state of one \<open>useAsyncOperation\<close>: its own \<open>loading\<close> and \<open>data\<close>, the
  \<open>errorState\<close> of the \<open>useErrorHandler\<close> it holds, and the alerts shown so far.
  State updates take effect in the order of the calls.
\<close>

record 'a HookState =
  loading :: bool
  data :: "'a option"
  error :: "AppError option"
  hasError :: bool
  alerts :: "AlertShown list"

text \<open>
  A callback given by the caller either returns or throws; its result is the value it
  throws, if any.
\<close>

type_synonym 'x Callback = "'x \<Rightarrow> Thrown option"

text \<open>\<open>ErrorHandlerOptions\<close>; \<open>opt_context\<close> is the option \<open>context\<close>.\<close>

record ErrorHandlerOptions =
  showAlert :: "bool option"
  logError :: "bool option"
  opt_context :: "string option"
  onError :: "AppError Callback option"
  retryable :: "bool option"

record 'a UseAsyncOperationOptions = ErrorHandlerOptions +
  onSuccess :: "'a Callback option"

definition orDefault :: "'x option \<Rightarrow> 'x \<Rightarrow> 'x" where
  "orDefault v d = (case v of Some x \<Rightarrow> x | None \<Rightarrow> d)"

definition clearError :: "'a HookState \<Rightarrow> 'a HookState" where
  "clearError st = st\<lparr> error := None, hasError := False \<rparr>"

definition showErrorAlert :: "AppError \<Rightarrow> bool \<Rightarrow> bool \<Rightarrow> 'a HookState \<Rightarrow> 'a HookState" where
  "showErrorAlert e retry hasOnRetry st =
     st\<lparr> alerts := alerts st @
           [\<lparr> title = getErrorTitle (AppError.code e), body = getUserMessage e,
              buttons = (if retry \<and> hasOnRetry then [''Cancel'', ''Retry''] else [''OK'']) \<rparr>] \<rparr>"

text \<open>
  \<open>handleError\<close> returns the value that escapes from it, if any, and the new state. A
  throwing \<open>parseError\<close> leaves the state as it was; a throwing \<open>onError\<close> leaves
  the state already updated and no alert shown.
\<close>

definition handleError ::
  "string \<Rightarrow> (JsValue \<Rightarrow> Thrown + string) \<Rightarrow> Thrown \<Rightarrow> ErrorHandlerOptions \<Rightarrow> 'a HookState
     \<Rightarrow> Thrown option \<times> 'a HookState" where
  "handleError now objectToString thrown options st =
     (case parseError now objectToString thrown (opt_context options) of
        Inl t \<Rightarrow> (Some t, st)
      | Inr appError \<Rightarrow>
          (let st1 = st\<lparr> error := Some appError, hasError := True \<rparr>
           in case (case onError options of Some f \<Rightarrow> f appError | None \<Rightarrow> None) of
                Some t \<Rightarrow> (Some t, st1)
              | None \<Rightarrow>
                  if orDefault (showAlert options) False then
                    (None,
                     showErrorAlert appError (orDefault (retryable options) False) False st1)
                  else (None, st1)))"

text \<open>The promise of the wrapped operation settles one way or the other.\<close>

datatype 'a Settled = Resolved 'a | Rejected Thrown

text \<open>
  \<open>execute\<close> of \<open>useAsyncOperation\<close>. The \<open>try\<close> block awaits the operation, stores
  its result and calls \<open>onSuccess\<close>; the \<open>catch\<close> block hands whatever was thrown in
  the \<open>try\<close> block to \<open>handleError\<close> with the options \<open>showAlert\<close>, \<open>context\<close> and
  \<open>retryable\<close>; the \<open>finally\<close> block ends the loading. The first component of the
  result is the value with which the promise of \<open>execute\<close> rejects, if it does.
\<close>

definition execute ::
  "string \<Rightarrow> (JsValue \<Rightarrow> Thrown + string) \<Rightarrow> ('args \<Rightarrow> 'a Settled)
     \<Rightarrow> 'a UseAsyncOperationOptions \<Rightarrow> 'args \<Rightarrow> 'a HookState
     \<Rightarrow> Thrown option \<times> 'a HookState" where
  "execute now objectToString operation options args st =
     (let st1 = clearError (st\<lparr> loading := True \<rparr>);
          tried =
            (case operation args of
               Rejected t \<Rightarrow> (Some t, st1)
             | Resolved result \<Rightarrow>
                 (case onSuccess options of
                    Some f \<Rightarrow> (f result, st1\<lparr> data := Some result \<rparr>)
                  | None \<Rightarrow> (None, st1\<lparr> data := Some result \<rparr>)));
          caught =
            (case fst tried of
               None \<Rightarrow> (None, snd tried)
             | Some err \<Rightarrow>
                 handleError now objectToString err
                   \<lparr> showAlert = Some (orDefault (showAlert options) False),
                     logError = None,
                     opt_context = opt_context options,
                     onError = None,
                     retryable = Some (orDefault (retryable options) True) \<rparr>
                   (snd tried))
      in (fst caught, (snd caught)\<lparr> loading := False \<rparr>))"

text \<open>
  The values the hooks start from (\<open>useState(false)\<close>, \<open>useState(null)\<close> and the
  clear error state), and the options \<open>{}\<close> that \<open>useAsyncOperation\<close> takes by
  default.
\<close>

definition initialState :: "'a HookState" where
  "initialState =
     \<lparr> loading = False, data = None, error = None, hasError = False, alerts = [] \<rparr>"

definition noOptions :: "'a UseAsyncOperationOptions" where
  "noOptions =
     \<lparr> showAlert = None, logError = None, opt_context = None, onError = None,
       retryable = None, onSuccess = None \<rparr>"

section \<open>Notions of the specification\<close>

text \<open>
  The specification's \<open>ErrorKind\<close> enumeration, in its words and order: network,
  timeout, connection, unauthorized, forbidden, session-expired, invalid-credentials,
  validation, invalid-input, missing-field, media-upload-failed, media-too-large,
  invalid-media-type, media-processing-failed, database, not-found, duplicate,
  rate-limited, unknown, server; each as the member of \<open>ErrorCode\<close> it names.
\<close>

definition spec_ErrorKinds :: "ErrorCode list" where
  "spec_ErrorKinds =
     [NETWORK_ERROR, TIMEOUT_ERROR, CONNECTION_ERROR, UNAUTHORIZED, FORBIDDEN,
      SESSION_EXPIRED, INVALID_CREDENTIALS, VALIDATION_ERROR, INVALID_INPUT,
      MISSING_REQUIRED_FIELD, MEDIA_UPLOAD_FAILED, MEDIA_TOO_LARGE, INVALID_MEDIA_TYPE,
      MEDIA_PROCESSING_FAILED, DATABASE_ERROR, RECORD_NOT_FOUND, DUPLICATE_RECORD,
      RATE_LIMIT_EXCEEDED, UNKNOWN_ERROR, SERVER_ERROR]"

text \<open>
  The characters the specification allows in a username: letters, digits and the
  underscore.
\<close>

definition spec_usernameChars :: string where
  "spec_usernameChars =
     ''abcdefghijklmnopqrstuvwxyz'' @ ''ABCDEFGHIJKLMNOPQRSTUVWXYZ'' @ ''0123456789'' @ ''_''"

text \<open>
  An error as a field validator is to report it for the field \<open>f\<close>: built by
  \<open>validationError\<close> at the clock reading \<open>now\<close> from a message that is not empty
  and the name \<open>f\<close>, hence with the code \<open>VALIDATION_ERROR\<close>, that message, that
  timestamp and that field name, and no details.
\<close>

definition fromValidationErrorFactory :: "string \<Rightarrow> string \<Rightarrow> ApiError \<Rightarrow> bool" where
  "fromValidationErrorFactory now f e =
     ((\<exists>m. m \<noteq> [] \<and> e = validationError now m (Some f) None \<and> message e = m)
      \<and> code e = VALIDATION_ERROR \<and> message e \<noteq> [] \<and> timestamp e = now
      \<and> field e = Some f \<and> f \<noteq> [] \<and> details e = None)"

section \<open>Properties of the string functions\<close>

text \<open>\<open>str_includes\<close> is the occurrence of the search string as a contiguous part.\<close>

lemma startsWith_iff: "startsWith s p = (\<exists>q. s = p @ q)"
  by (induction s p rule: startsWith.induct) auto

lemma str_includes_iff: "str_includes s sub = (\<exists>p q. s = p @ sub @ q)"
proof (induction s)
  case Nil
  then show ?case by simp
next
  case (Cons c cs)
  show ?case
  proof
    assume "str_includes (c # cs) sub"
    then consider "startsWith (c # cs) sub" | "str_includes cs sub" by auto
    then show "\<exists>p q. c # cs = p @ sub @ q"
    proof cases
      case 1
      then obtain q where "c # cs = sub @ q" by (auto simp add: startsWith_iff)
      then have "c # cs = [] @ sub @ q" by simp
      then show ?thesis by blast
    next
      case 2
      then obtain p q where "cs = p @ sub @ q" using Cons.IH by auto
      then have "c # cs = (c # p) @ sub @ q" by simp
      then show ?thesis by blast
    qed
  next
    assume "\<exists>p q. c # cs = p @ sub @ q"
    then obtain p q where pq: "c # cs = p @ sub @ q" by blast
    show "str_includes (c # cs) sub"
    proof (cases p)
      case Nil
      with pq have "startsWith (c # cs) sub" by (auto simp add: startsWith_iff)
      then show ?thesis by simp
    next
      case (Cons a p')
      with pq have "cs = p' @ sub @ q" by simp
      then have "str_includes cs sub" using Cons.IH by blast
      then show ?thesis by simp
    qed
  qed
qed

section \<open>Properties of the error taxonomy\<close>

lemma ErrorCode_cases_listed:
  "x \<in> set spec_ErrorKinds \<union> {CONTENT_MODERATION_FAILED, ALREADY_REACTED}"
  by (cases x) (simp_all add: spec_ErrorKinds_def)

text \<open>
  Claim C4, as stated: the enumeration \<open>ErrorCode\<close> has exactly the twenty listed
  kinds. It does not: \<open>CONTENT_MODERATION_FAILED\<close> is a member and is not listed.
\<close>

theorem ErrorCode_not_only_listed: "set spec_ErrorKinds \<noteq> (UNIV :: ErrorCode set)"
proof
  assume "set spec_ErrorKinds = (UNIV :: ErrorCode set)"
  then have "CONTENT_MODERATION_FAILED \<in> set spec_ErrorKinds" by simp
  then show False by (simp add: spec_ErrorKinds_def)
qed

text \<open>
  Claim C4, amended: \<open>ErrorCode\<close> is closed and has twenty-two members, the twenty
  listed kinds, all different, and the two business-logic codes
  \<open>CONTENT_MODERATION_FAILED\<close> and \<open>ALREADY_REACTED\<close>.
\<close>

theorem ErrorCode_members:
  "(UNIV :: ErrorCode set)
     = set spec_ErrorKinds \<union> {CONTENT_MODERATION_FAILED, ALREADY_REACTED}
   \<and> length spec_ErrorKinds = 20 \<and> distinct spec_ErrorKinds
   \<and> CONTENT_MODERATION_FAILED \<notin> set spec_ErrorKinds
   \<and> ALREADY_REACTED \<notin> set spec_ErrorKinds
   \<and> CONTENT_MODERATION_FAILED \<noteq> ALREADY_REACTED"
proof -
  have "(UNIV :: ErrorCode set)
          = set spec_ErrorKinds \<union> {CONTENT_MODERATION_FAILED, ALREADY_REACTED}"
    using ErrorCode_cases_listed by blast
  then show ?thesis by (simp add: spec_ErrorKinds_def)
qed

text \<open>
  Claim C2: \<open>isRetryableError\<close> returns true exactly for an error of the network
  family (network, timeout, connection) whose \<open>retryable\<close> flag is true, for a
  rate-limit error and for a server error. \<open>rateLimitError("slow down", 30, 100, 0)\<close>
  has \<open>retry_after\<close> 30 and is retryable.
\<close>

theorem isRetryableError_iff:
  "isRetryableError e =
     ((code e \<in> {NETWORK_ERROR, TIMEOUT_ERROR, CONNECTION_ERROR}
         \<and> ApiError.retryable e = Some True)
      \<or> code e = RATE_LIMIT_EXCEEDED \<or> code e = SERVER_ERROR)
   \<and> ApiError.retry_after (rateLimitError now ''slow down'' 30 100 0) = Some 30
   \<and> isRetryableError (rateLimitError now ''slow down'' 30 100 0)"
  by (auto simp add: isRetryableError_def isNetworkError_def isRateLimitError_def
        rateLimitError_def baseError_def)

section \<open>Properties of the field validators\<close>

subsection \<open>Patterns, white space and character classes\<close>

lemma pattern_test_Many: "pattern_test [Many p] s = (s \<noteq> [] \<and> list_all p s)"
  by (induction s) auto

lemma trim_nonempty:
  assumes "c \<in> set s" "\<not> isWhiteSpace c"
  shows "trim s \<noteq> []"
proof -
  have ne: "dropWhile isWhiteSpace s \<noteq> []"
    using assms by (auto simp: dropWhile_eq_Nil_conv)
  then have "\<not> isWhiteSpace (hd (dropWhile isWhiteSpace s))" by (rule hd_dropWhile)
  moreover have "hd (dropWhile isWhiteSpace s) \<in> set (rev (dropWhile isWhiteSpace s))"
    using ne by simp
  ultimately have "dropWhile isWhiteSpace (rev (dropWhile isWhiteSpace s)) \<noteq> []"
    by (auto simp: dropWhile_eq_Nil_conv simp del: set_rev)
  then show ?thesis by (simp add: trim_def)
qed

lemma between_upt: "(l \<le> (n::nat) \<and> n \<le> h) = (n \<in> set [l..<Suc h])"
  by auto

lemma of_char_mem: "((of_char c :: nat) \<in> set (map of_char cs)) = (c \<in> set cs)"
  unfolding set_map by (rule inj_image_mem_iff) (simp add: inj_on_def)

lemma inRange_lower: "inRange CHR ''a'' CHR ''z'' c = (c \<in> set ''abcdefghijklmnopqrstuvwxyz'')"
proof -
  have "inRange CHR ''a'' CHR ''z'' c
          = ((of_char c :: nat) \<in> set (map of_char ''abcdefghijklmnopqrstuvwxyz''))"
    by (simp add: inRange_def between_upt del: upt_Suc)
  then show ?thesis by (simp only: of_char_mem)
qed

lemma inRange_upper: "inRange CHR ''A'' CHR ''Z'' c = (c \<in> set ''ABCDEFGHIJKLMNOPQRSTUVWXYZ'')"
proof -
  have "inRange CHR ''A'' CHR ''Z'' c
          = ((of_char c :: nat) \<in> set (map of_char ''ABCDEFGHIJKLMNOPQRSTUVWXYZ''))"
    by (simp add: inRange_def between_upt del: upt_Suc)
  then show ?thesis by (simp only: of_char_mem)
qed

lemma inRange_digit: "inRange CHR ''0'' CHR ''9'' c = (c \<in> set ''0123456789'')"
proof -
  have "inRange CHR ''0'' CHR ''9'' c
          = ((of_char c :: nat) \<in> set (map of_char ''0123456789''))"
    by (simp add: inRange_def between_upt del: upt_Suc)
  then show ?thesis by (simp only: of_char_mem)
qed

lemma username_class:
  "(inRange CHR ''a'' CHR ''z'' c \<or> inRange CHR ''A'' CHR ''Z'' c
      \<or> inRange CHR ''0'' CHR ''9'' c \<or> c = CHR ''_'') = (c \<in> set spec_usernameChars)"
  unfolding inRange_lower inRange_upper inRange_digit spec_usernameChars_def set_append
  by auto

lemma usernameChars_not_space: "c \<in> set spec_usernameChars \<Longrightarrow> \<not> isWhiteSpace c"
  by (auto simp add: spec_usernameChars_def isWhiteSpace_def)

lemma USERNAME_PATTERN_test:
  "pattern_test USERNAME_PATTERN s = (s \<noteq> [] \<and> set s \<subseteq> set spec_usernameChars)"
  unfolding USERNAME_PATTERN_def pattern_test_Many username_class
  by (auto simp add: list_all_iff)

lemma validateUsername_success:
  "isSuccess (validateUsername now s)
     = (3 \<le> length s \<and> length s \<le> 30 \<and> set s \<subseteq> set spec_usernameChars)"
proof (cases "s = [] \<or> length s < 3 \<or> length s > 30 \<or> \<not> set s \<subseteq> set spec_usernameChars")
  case True
  then show ?thesis
    by (auto simp add: validateUsername_def isSuccess_def USERNAME_PATTERN_test
          USERNAME_MIN_LENGTH_def USERNAME_MAX_LENGTH_def)
next
  case False
  then obtain c where "c \<in> set s" "c \<in> set spec_usernameChars"
    by (cases s) auto
  then have "trim s \<noteq> []"
    using trim_nonempty usernameChars_not_space by blast
  with False show ?thesis
    by (auto simp add: validateUsername_def isSuccess_def USERNAME_PATTERN_test
          USERNAME_MIN_LENGTH_def USERNAME_MAX_LENGTH_def)
qed

text \<open>
  Claim C7: \<open>validateUsername\<close> succeeds exactly on the strings of 3 to 30 characters
  that consist of letters, digits and underscores (so the empty string is rejected).
  \<open>validateUsername("ab")\<close> fails with a validation error for the field \<open>username\<close>
  whose message contains \<open>at least 3\<close>, and \<open>validateUsername("john_doe1")\<close> succeeds
  with the input branded as a valid username.
\<close>

theorem validateUsername_rule:
  "isSuccess (validateUsername now s)
     = (3 \<le> length s \<and> length s \<le> 30 \<and> set s \<subseteq> set spec_usernameChars)
   \<and> validateUsername now ''ab''
       = Failure (validationError now ''Username must be at least 3 characters''
                    (Some ''username'') None)
   \<and> str_includes ''Username must be at least 3 characters'' ''at least 3''
   \<and> validateUsername now ''john_doe1'' = Success (Brand ''john_doe1'' :: ValidUsername)"
proof -
  have "validateUsername now ''ab''
       = Failure (validationError now ''Username must be at least 3 characters''
                    (Some ''username'') None)"
    by (simp add: validateUsername_def trim_def isWhiteSpace_def USERNAME_MIN_LENGTH_def
          showNat.simps digit_def)
  moreover have "validateUsername now ''john_doe1'' = Success (Brand ''john_doe1'')"
    by (simp add: validateUsername_def USERNAME_PATTERN_def inRange_def trim_def
          isWhiteSpace_def USERNAME_MIN_LENGTH_def USERNAME_MAX_LENGTH_def)
  ultimately show ?thesis
    using validateUsername_success by simp
qed

subsection \<open>Success keeps the input\<close>

lemma email_ok: "validateEmail now s = Success v \<Longrightarrow> raw v = s"
  by (auto simp add: validateEmail_def split: if_splits)
lemma username_ok: "validateUsername now s = Success v \<Longrightarrow> raw v = s"
  by (auto simp add: validateUsername_def split: if_splits)
lemma password_ok: "validatePassword now s = Success v \<Longrightarrow> raw v = s"
  by (auto simp add: validatePassword_def split: if_splits)
lemma post_ok: "validatePostContent now s = Success v \<Longrightarrow> raw v = s"
  by (auto simp add: validatePostContent_def split: if_splits)
lemma comment_ok: "validateCommentContent now s = Success v \<Longrightarrow> raw v = s"
  by (auto simp add: validateCommentContent_def split: if_splits)
lemma bio_ok: "validateBio now s = Success v \<Longrightarrow> raw v = s"
  by (auto simp add: validateBio_def split: if_splits)
lemma url_ok: "validateMediaUrl now p s = Success v \<Longrightarrow> raw v = s"
  by (auto simp add: validateMediaUrl_def split: if_splits)

text \<open>
  Claim C5: whenever a field validator returns the success arm for an input string, the
  value in that arm, read back as a raw string, is the input.
\<close>

theorem validators_keep_input:
  "(validateEmail now email = Success v1 \<longrightarrow> raw v1 = email)
   \<and> (validateUsername now username = Success v2 \<longrightarrow> raw v2 = username)
   \<and> (validatePassword now password = Success v3 \<longrightarrow> raw v3 = password)
   \<and> (validatePostContent now post = Success v4 \<longrightarrow> raw v4 = post)
   \<and> (validateCommentContent now comment = Success v5 \<longrightarrow> raw v5 = comment)
   \<and> (validateBio now bio = Success v6 \<longrightarrow> raw v6 = bio)
   \<and> (validateMediaUrl now parsesAsUrl url = Success v7 \<longrightarrow> raw v7 = url)"
  by (intro conjI impI)
    (erule email_ok username_ok password_ok post_ok comment_ok bio_ok url_ok)+

text \<open>The hypotheses of C5 hold on seven accepted inputs.\<close>

theorem validators_keep_input_witness:
  "validateEmail ''2024-01-01T00:00:00.000Z'' ''a@b.co'' = Success (Brand ''a@b.co'')
   \<and> validateUsername ''2024-01-01T00:00:00.000Z'' ''john_doe1'' = Success (Brand ''john_doe1'')
   \<and> validatePassword ''2024-01-01T00:00:00.000Z'' ''Secret123'' = Success (Brand ''Secret123'')
   \<and> validatePostContent ''2024-01-01T00:00:00.000Z'' ''hello'' = Success (Brand ''hello'')
   \<and> validateCommentContent ''2024-01-01T00:00:00.000Z'' ''nice'' = Success (Brand ''nice'')
   \<and> validateBio ''2024-01-01T00:00:00.000Z'' ''Time traveller'' = Success (Brand ''Time traveller'')
   \<and> validateMediaUrl ''2024-01-01T00:00:00.000Z'' (\<lambda>u. True) ''https://cdn.example/p.png''
       = Success (Brand ''https://cdn.example/p.png'')
   \<and> raw (Brand ''a@b.co'' :: ValidEmail) = ''a@b.co''"
  using validators_keep_input [of "''2024-01-01T00:00:00.000Z''" "''a@b.co''" "Brand ''a@b.co''"
      "''john_doe1''" "Brand ''john_doe1''" "''Secret123''" "Brand ''Secret123''"
      "''hello''" "Brand ''hello''" "''nice''" "Brand ''nice''"
      "''Time traveller''" "Brand ''Time traveller''"
      "\<lambda>u. True" "''https://cdn.example/p.png''" "Brand ''https://cdn.example/p.png''"]
  by (simp add: validateEmail_def EMAIL_PATTERN_def notSpaceOrAt_def trim_def isWhiteSpace_def
        validateUsername_def USERNAME_PATTERN_def inRange_def USERNAME_MIN_LENGTH_def
        USERNAME_MAX_LENGTH_def validatePassword_def passwordErrors_def class_test_def
        PASSWORD_MIN_LENGTH_def PASSWORD_MAX_LENGTH_def PASSWORD_REQUIRE_UPPERCASE_def
        PASSWORD_REQUIRE_LOWERCASE_def PASSWORD_REQUIRE_NUMBER_def PASSWORD_REQUIRE_SPECIAL_def
        validatePostContent_def POST_CONTENT_MIN_LENGTH_def POST_CONTENT_MAX_LENGTH_def
        validateCommentContent_def COMMENT_CONTENT_MIN_LENGTH_def COMMENT_CONTENT_MAX_LENGTH_def
        validateBio_def BIO_MAX_LENGTH_def validateMediaUrl_def)

subsection \<open>Failure carries a validation error\<close>

lemma showNat_nonempty: "showNat n \<noteq> []"
  by (subst showNat.simps) simp

lemma validationError_fields:
  "code (validationError now m f d) = VALIDATION_ERROR"
  "message (validationError now m f d) = m"
  "ApiError.timestamp (validationError now m f d) = now"
  "field (validationError now m f d) = f"
  "ApiError.details (validationError now m f d) = d"
  by (simp_all add: validationError_def baseError_def)

lemma factory_ok:
  "m \<noteq> [] \<Longrightarrow> f \<noteq> []
     \<Longrightarrow> fromValidationErrorFactory now f (validationError now m (Some f) None)"
  unfolding fromValidationErrorFactory_def
  by (auto simp add: validationError_fields)

lemma email_fail:
  "validateEmail now s = Failure e \<Longrightarrow> fromValidationErrorFactory now ''email'' e"
  by (auto simp add: validateEmail_def factory_ok split: if_splits)

lemma username_fail:
  "validateUsername now s = Failure e \<Longrightarrow> fromValidationErrorFactory now ''username'' e"
  by (auto simp add: validateUsername_def factory_ok split: if_splits)

lemma password_fail:
  "validatePassword now s = Failure e \<Longrightarrow> fromValidationErrorFactory now ''password'' e"
  by (auto simp add: validatePassword_def factory_ok split: if_splits)

lemma post_fail:
  "validatePostContent now s = Failure e \<Longrightarrow> fromValidationErrorFactory now ''content'' e"
  by (auto simp add: validatePostContent_def factory_ok split: if_splits)

lemma comment_fail:
  "validateCommentContent now s = Failure e
     \<Longrightarrow> fromValidationErrorFactory now ''content'' e"
  by (auto simp add: validateCommentContent_def factory_ok split: if_splits)

lemma bio_fail:
  "validateBio now s = Failure e \<Longrightarrow> fromValidationErrorFactory now ''bio'' e"
  by (auto simp add: validateBio_def factory_ok split: if_splits)

lemma url_fail:
  "validateMediaUrl now p s = Failure e \<Longrightarrow> fromValidationErrorFactory now ''media_url'' e"
  by (auto simp add: validateMediaUrl_def factory_ok split: if_splits)

lemma file_fail:
  "validateMediaFile now p i = Failure e
     \<Longrightarrow> fromValidationErrorFactory now
           (if MediaUploadInput.size i
                 > (if MediaUploadInput.type i \<in> set ALLOWED_VIDEO_TYPES
                    then MAX_VIDEO_SIZE else MAX_FILE_SIZE)
               \<or> MediaUploadInput.type i \<notin> set (ALLOWED_IMAGE_TYPES @ ALLOWED_VIDEO_TYPES)
            then ''media'' else ''media_url'') e"
  by (auto simp add: validateMediaFile_def Let_def factory_ok url_fail
        split: if_splits Result.splits)

lemma match_fail:
  "validatePasswordsMatch now a b = Failure e
     \<Longrightarrow> fromValidationErrorFactory now ''password_confirmation'' e"
  by (auto simp add: validatePasswordsMatch_def factory_ok split: if_splits)

text \<open>
  Claim C10: every failure arm of the nine field validators carries an error built by
  \<open>validationError\<close>: its code is \<open>VALIDATION_ERROR\<close>, its message is not empty, it
  has the timestamp of the call, and its field name is that of the failing field:
  \<open>email\<close>, \<open>username\<close>, \<open>password\<close>, \<open>content\<close> for a post and for a comment,
  \<open>bio\<close>, \<open>media_url\<close>, \<open>password_confirmation\<close>, and for a media file \<open>media\<close>
  when the size or the type is refused and \<open>media_url\<close> when its URI is.
\<close>

theorem validator_failures_from_factory:
  "(validateEmail now email = Failure e1
        \<longrightarrow> fromValidationErrorFactory now ''email'' e1)
   \<and> (validateUsername now username = Failure e2
        \<longrightarrow> fromValidationErrorFactory now ''username'' e2)
   \<and> (validatePassword now password = Failure e3
        \<longrightarrow> fromValidationErrorFactory now ''password'' e3)
   \<and> (validatePostContent now post = Failure e4
        \<longrightarrow> fromValidationErrorFactory now ''content'' e4)
   \<and> (validateCommentContent now comment = Failure e5
        \<longrightarrow> fromValidationErrorFactory now ''content'' e5)
   \<and> (validateBio now bio = Failure e6
        \<longrightarrow> fromValidationErrorFactory now ''bio'' e6)
   \<and> (validateMediaUrl now parsesAsUrl url = Failure e7
        \<longrightarrow> fromValidationErrorFactory now ''media_url'' e7)
   \<and> (validateMediaFile now parsesAsUrl file = Failure e8
        \<longrightarrow> fromValidationErrorFactory now
              (if MediaUploadInput.size file
                    > (if MediaUploadInput.type file \<in> set ALLOWED_VIDEO_TYPES
                       then MAX_VIDEO_SIZE else MAX_FILE_SIZE)
                  \<or> MediaUploadInput.type file
                      \<notin> set (ALLOWED_IMAGE_TYPES @ ALLOWED_VIDEO_TYPES)
               then ''media'' else ''media_url'') e8)
   \<and> (validatePasswordsMatch now pw confirmation = Failure e9
        \<longrightarrow> fromValidationErrorFactory now ''password_confirmation'' e9)"
  by (intro conjI impI)
    (erule email_fail username_fail password_fail post_fail comment_fail bio_fail url_fail
       file_fail match_fail)+

text \<open>The hypotheses of C10 hold on nine rejected inputs.\<close>

theorem validator_failures_from_factory_witness:
  "validateEmail ''2024-01-01T00:00:00.000Z'' ''not-an-email''
     = Failure (validationError ''2024-01-01T00:00:00.000Z'' ''Invalid email format''
                  (Some ''email'') None)
   \<and> validateUsername ''2024-01-01T00:00:00.000Z'' ''ab''
     = Failure (validationError ''2024-01-01T00:00:00.000Z''
                  ''Username must be at least 3 characters'' (Some ''username'') None)
   \<and> validatePassword ''2024-01-01T00:00:00.000Z'' ''secret123''
     = Failure (validationError ''2024-01-01T00:00:00.000Z''
                  ''Password must contain at least one uppercase letter''
                  (Some ''password'') None)
   \<and> validatePostContent ''2024-01-01T00:00:00.000Z'' ''  ''
     = Failure (validationError ''2024-01-01T00:00:00.000Z'' ''Post content is required''
                  (Some ''content'') None)
   \<and> validateCommentContent ''2024-01-01T00:00:00.000Z'' []
     = Failure (validationError ''2024-01-01T00:00:00.000Z'' ''Comment content is required''
                  (Some ''content'') None)
   \<and> validateBio ''2024-01-01T00:00:00.000Z'' (replicate 161 CHR ''x'')
     = Failure (validationError ''2024-01-01T00:00:00.000Z''
                  ''Bio must not exceed 160 characters'' (Some ''bio'') None)
   \<and> validateMediaUrl ''2024-01-01T00:00:00.000Z'' (\<lambda>u. False) ''not a url''
     = Failure (validationError ''2024-01-01T00:00:00.000Z'' ''Invalid URL format''
                  (Some ''media_url'') None)
   \<and> validateMediaFile ''2024-01-01T00:00:00.000Z'' (\<lambda>u. False)
       \<lparr> MediaUploadInput.uri = ''file:///tmp/a.gif'', type = ''image/gif'',
         name = ''a.gif'', size = 1024 \<rparr>
     = Failure (validationError ''2024-01-01T00:00:00.000Z''
                  ''Invalid file type. Only images and videos are allowed.''
                  (Some ''media'') None)
   \<and> validatePasswordsMatch ''2024-01-01T00:00:00.000Z'' ''Secret123'' ''Secret124''
     = Failure (validationError ''2024-01-01T00:00:00.000Z'' ''Passwords do not match''
                  (Some ''password_confirmation'') None)
   \<and> fromValidationErrorFactory ''2024-01-01T00:00:00.000Z'' ''email''
       (validationError ''2024-01-01T00:00:00.000Z''
          ''Invalid email format''
          (Some ''email'') None)
   \<and> fromValidationErrorFactory ''2024-01-01T00:00:00.000Z'' ''username''
       (validationError ''2024-01-01T00:00:00.000Z''
          ''Username must be at least 3 characters''
          (Some ''username'') None)
   \<and> fromValidationErrorFactory ''2024-01-01T00:00:00.000Z'' ''password''
       (validationError ''2024-01-01T00:00:00.000Z''
          ''Password must contain at least one uppercase letter''
          (Some ''password'') None)
   \<and> fromValidationErrorFactory ''2024-01-01T00:00:00.000Z'' ''content''
       (validationError ''2024-01-01T00:00:00.000Z''
          ''Post content is required''
          (Some ''content'') None)
   \<and> fromValidationErrorFactory ''2024-01-01T00:00:00.000Z'' ''content''
       (validationError ''2024-01-01T00:00:00.000Z''
          ''Comment content is required''
          (Some ''content'') None)
   \<and> fromValidationErrorFactory ''2024-01-01T00:00:00.000Z'' ''bio''
       (validationError ''2024-01-01T00:00:00.000Z''
          ''Bio must not exceed 160 characters''
          (Some ''bio'') None)
   \<and> fromValidationErrorFactory ''2024-01-01T00:00:00.000Z'' ''media_url''
       (validationError ''2024-01-01T00:00:00.000Z''
          ''Invalid URL format''
          (Some ''media_url'') None)
   \<and> fromValidationErrorFactory ''2024-01-01T00:00:00.000Z'' ''media''
       (validationError ''2024-01-01T00:00:00.000Z''
          ''Invalid file type. Only images and videos are allowed.''
          (Some ''media'') None)
   \<and> fromValidationErrorFactory ''2024-01-01T00:00:00.000Z'' ''password_confirmation''
       (validationError ''2024-01-01T00:00:00.000Z''
          ''Passwords do not match''
          (Some ''password_confirmation'') None)"
proof -
  have 1: "validateEmail ''2024-01-01T00:00:00.000Z'' ''not-an-email''
     = Failure (validationError ''2024-01-01T00:00:00.000Z'' ''Invalid email format''
                  (Some ''email'') None)"
    by (simp add: validateEmail_def EMAIL_PATTERN_def notSpaceOrAt_def trim_def
          isWhiteSpace_def)
  have 2: "validateUsername ''2024-01-01T00:00:00.000Z'' ''ab''
     = Failure (validationError ''2024-01-01T00:00:00.000Z''
                  ''Username must be at least 3 characters'' (Some ''username'') None)"
    by (simp add: validateUsername_def trim_def isWhiteSpace_def USERNAME_MIN_LENGTH_def
          showNat.simps digit_def)
  have 3: "validatePassword ''2024-01-01T00:00:00.000Z'' ''secret123''
     = Failure (validationError ''2024-01-01T00:00:00.000Z''
                  ''Password must contain at least one uppercase letter''
                  (Some ''password'') None)"
    by (simp add: validatePassword_def passwordErrors_def class_test_def inRange_def
          PASSWORD_MIN_LENGTH_def PASSWORD_MAX_LENGTH_def PASSWORD_REQUIRE_UPPERCASE_def
          PASSWORD_REQUIRE_LOWERCASE_def PASSWORD_REQUIRE_NUMBER_def
          PASSWORD_REQUIRE_SPECIAL_def)
  have 4: "validatePostContent ''2024-01-01T00:00:00.000Z'' ''  ''
     = Failure (validationError ''2024-01-01T00:00:00.000Z'' ''Post content is required''
                  (Some ''content'') None)"
    by (simp add: validatePostContent_def trim_def isWhiteSpace_def)
  have 5: "validateCommentContent ''2024-01-01T00:00:00.000Z'' []
     = Failure (validationError ''2024-01-01T00:00:00.000Z'' ''Comment content is required''
                  (Some ''content'') None)"
    by (simp add: validateCommentContent_def)
  have 6: "validateBio ''2024-01-01T00:00:00.000Z'' (replicate 161 CHR ''x'')
     = Failure (validationError ''2024-01-01T00:00:00.000Z''
                  ''Bio must not exceed 160 characters'' (Some ''bio'') None)"
    by (simp add: validateBio_def BIO_MAX_LENGTH_def showNat.simps digit_def)
  have 7: "validateMediaUrl ''2024-01-01T00:00:00.000Z'' (\<lambda>u. False) ''not a url''
     = Failure (validationError ''2024-01-01T00:00:00.000Z'' ''Invalid URL format''
                  (Some ''media_url'') None)"
    by (simp add: validateMediaUrl_def trim_def isWhiteSpace_def)
  have 8: "validateMediaFile ''2024-01-01T00:00:00.000Z'' (\<lambda>u. False)
       \<lparr> MediaUploadInput.uri = ''file:///tmp/a.gif'', type = ''image/gif'',
         name = ''a.gif'', size = 1024 \<rparr>
     = Failure (validationError ''2024-01-01T00:00:00.000Z''
                  ''Invalid file type. Only images and videos are allowed.''
                  (Some ''media'') None)"
    by (simp add: validateMediaFile_def Let_def ALLOWED_VIDEO_TYPES_def
          ALLOWED_IMAGE_TYPES_def MAX_FILE_SIZE_def)
  have 9: "validatePasswordsMatch ''2024-01-01T00:00:00.000Z'' ''Secret123'' ''Secret124''
     = Failure (validationError ''2024-01-01T00:00:00.000Z'' ''Passwords do not match''
                  (Some ''password_confirmation'') None)"
    by (simp add: validatePasswordsMatch_def)
  note all = validator_failures_from_factory [of "''2024-01-01T00:00:00.000Z''" "''not-an-email''" _ "''ab''" _ "''secret123''" _
      "''  ''" _ "[]" _ "replicate 161 CHR ''x''" _ "\<lambda>u. False" "''not a url''" _
      "\<lparr> MediaUploadInput.uri = ''file:///tmp/a.gif'', type = ''image/gif'',
         name = ''a.gif'', size = 1024 \<rparr>" _ "''Secret123''" "''Secret124''" _]
  have f1: "fromValidationErrorFactory ''2024-01-01T00:00:00.000Z'' ''email''
       (validationError ''2024-01-01T00:00:00.000Z''
          ''Invalid email format''
          (Some ''email'') None)"
    using all 1 by blast
  have f2: "fromValidationErrorFactory ''2024-01-01T00:00:00.000Z'' ''username''
       (validationError ''2024-01-01T00:00:00.000Z''
          ''Username must be at least 3 characters''
          (Some ''username'') None)"
    using all 2 by blast
  have f3: "fromValidationErrorFactory ''2024-01-01T00:00:00.000Z'' ''password''
       (validationError ''2024-01-01T00:00:00.000Z''
          ''Password must contain at least one uppercase letter''
          (Some ''password'') None)"
    using all 3 by blast
  have f4: "fromValidationErrorFactory ''2024-01-01T00:00:00.000Z'' ''content''
       (validationError ''2024-01-01T00:00:00.000Z''
          ''Post content is required''
          (Some ''content'') None)"
    using all 4 by blast
  have f5: "fromValidationErrorFactory ''2024-01-01T00:00:00.000Z'' ''content''
       (validationError ''2024-01-01T00:00:00.000Z''
          ''Comment content is required''
          (Some ''content'') None)"
    using all 5 by blast
  have f6: "fromValidationErrorFactory ''2024-01-01T00:00:00.000Z'' ''bio''
       (validationError ''2024-01-01T00:00:00.000Z''
          ''Bio must not exceed 160 characters''
          (Some ''bio'') None)"
    using all 6 by blast
  have f7: "fromValidationErrorFactory ''2024-01-01T00:00:00.000Z'' ''media_url''
       (validationError ''2024-01-01T00:00:00.000Z''
          ''Invalid URL format''
          (Some ''media_url'') None)"
    using all 7 by blast
  have f8: "fromValidationErrorFactory ''2024-01-01T00:00:00.000Z'' ''media''
       (validationError ''2024-01-01T00:00:00.000Z''
          ''Invalid file type. Only images and videos are allowed.''
          (Some ''media'') None)"
  proof -
    from all 8 have "fromValidationErrorFactory ''2024-01-01T00:00:00.000Z''
        (if MediaUploadInput.size
               \<lparr> MediaUploadInput.uri = ''file:///tmp/a.gif'', type = ''image/gif'',
                 name = ''a.gif'', size = 1024 \<rparr>
              > (if MediaUploadInput.type
                      \<lparr> MediaUploadInput.uri = ''file:///tmp/a.gif'', type = ''image/gif'',
                        name = ''a.gif'', size = 1024 \<rparr> \<in> set ALLOWED_VIDEO_TYPES
                 then MAX_VIDEO_SIZE else MAX_FILE_SIZE)
            \<or> MediaUploadInput.type
                 \<lparr> MediaUploadInput.uri = ''file:///tmp/a.gif'', type = ''image/gif'',
                   name = ''a.gif'', size = 1024 \<rparr>
                \<notin> set (ALLOWED_IMAGE_TYPES @ ALLOWED_VIDEO_TYPES)
         then ''media'' else ''media_url'')
        (validationError ''2024-01-01T00:00:00.000Z''
           ''Invalid file type. Only images and videos are allowed.''
           (Some ''media'') None)"
      by blast
    then show ?thesis
      by (simp add: ALLOWED_VIDEO_TYPES_def ALLOWED_IMAGE_TYPES_def MAX_FILE_SIZE_def)
  qed
  have f9: "fromValidationErrorFactory ''2024-01-01T00:00:00.000Z'' ''password_confirmation''
       (validationError ''2024-01-01T00:00:00.000Z''
          ''Passwords do not match''
          (Some ''password_confirmation'') None)"
    using all 9 by blast
  show ?thesis
    using 1 2 3 4 5 6 7 8 9 f1 f2 f3 f4 f5 f6 f7 f8 f9 by blast
qed

subsection \<open>Media files and posts\<close>

lemma megabytesFixed2_MAX_FILE_SIZE: "megabytesFixed2 MAX_FILE_SIZE = ''10.00''"
  by (simp add: megabytesFixed2_def MAX_FILE_SIZE_def showNat.simps digit_def Let_def)

text \<open>
  Claim C8: \<open>validateMediaFile\<close> tests the size before the type, and measures every
  file whose type is not a video type against the 10MB limit. So a file over 10MB with
  a type in no allow-list fails with the size error, not with the file-type error.
\<close>

theorem validateMediaFile_size_first:
  assumes "MediaUploadInput.type input \<notin> set ALLOWED_VIDEO_TYPES"
    and "MediaUploadInput.size input > 10 * 1024 * 1024"
  shows "validateMediaFile now parsesAsUrl input
           = Failure (validationError now ''File size must not exceed 10.00MB''
                        (Some ''media'') None)
         \<and> validateMediaFile now parsesAsUrl input
           \<noteq> Failure (validationError now
                        ''Invalid file type. Only images and videos are allowed.''
                        (Some ''media'') None)"
proof -
  have "validateMediaFile now parsesAsUrl input
           = Failure (validationError now ''File size must not exceed 10.00MB''
                        (Some ''media'') None)"
    using assms
    by (simp add: validateMediaFile_def Let_def megabytesFixed2_MAX_FILE_SIZE)
       (simp add: MAX_FILE_SIZE_def)
  then show ?thesis
    by (simp add: validationError_def baseError_def)
qed

text \<open>A portable document of 20MB.\<close>

theorem validateMediaFile_size_first_witness:
  "MediaUploadInput.type
       \<lparr> MediaUploadInput.uri = ''file:///tmp/report.pdf'', type = ''application/pdf'',
         name = ''report.pdf'', size = 20 * 1024 * 1024 \<rparr>
     \<notin> set (ALLOWED_IMAGE_TYPES @ ALLOWED_VIDEO_TYPES)
   \<and> MediaUploadInput.size
       \<lparr> MediaUploadInput.uri = ''file:///tmp/report.pdf'', type = ''application/pdf'',
         name = ''report.pdf'', size = 20 * 1024 * 1024 \<rparr>
     > 10 * 1024 * 1024
   \<and> validateMediaFile ''2024-01-01T00:00:00.000Z'' (\<lambda>u. True)
       \<lparr> MediaUploadInput.uri = ''file:///tmp/report.pdf'', type = ''application/pdf'',
         name = ''report.pdf'', size = 20 * 1024 * 1024 \<rparr>
     = Failure (validationError ''2024-01-01T00:00:00.000Z''
                  ''File size must not exceed 10.00MB'' (Some ''media'') None)"
  using validateMediaFile_size_first [of "\<lparr> MediaUploadInput.uri = ''file:///tmp/report.pdf'', type = ''application/pdf'',
         name = ''report.pdf'', size = 20 * 1024 * 1024 \<rparr>" "''2024-01-01T00:00:00.000Z''"
         "\<lambda>u. True"]
  by (simp add: ALLOWED_VIDEO_TYPES_def ALLOWED_IMAGE_TYPES_def)




section \<open>Properties of the parsers\<close>

text \<open>
  Claim C1, as stated: code \<open>23505\<close> yields the duplicate kind for every message. It
  does not: the message is searched for \<open>token\<close> before the code is looked at, and a
  unique-constraint failure on a table of push tokens comes out as an expired session.
\<close>

theorem parseSupabaseError_message_first:
  "map_Completion AppError.code
     (parseSupabaseError ''2024-01-01T00:00:00.000Z''
        (Obj [(''code'', Str ''23505''),
              (''message'', Str ''duplicate key value violates unique constraint push_tokens_pkey'')])
        None)
   = Returns AppErrorCode.SESSION_EXPIRED
   \<and> AppErrorCode.SESSION_EXPIRED \<noteq> DUPLICATE_ENTRY"
  by (simp add: parseSupabaseError_def Let_def new_AppError_def)

text \<open>
  Claim C1, amended: for every message string, \<open>parseSupabaseError\<close> looks at the
  phrases of an authentication failure first and at the code after them. A message
  that contains \<open>Invalid login credentials\<close> gives the invalid-credentials kind, and
  any other message that contains \<open>JWT\<close> or \<open>token\<close> gives the session-expired
  kind, whatever the code. A message that contains none of the three gives the
  duplicate kind for code \<open>23505\<close> and the not-found kind for code \<open>23503\<close>,
  whatever else it says.
\<close>

theorem parseSupabaseError_phrase_then_code:
  assumes "getProp err ''message'' = Str m"
  shows "(str_includes m ''Invalid login credentials''
            \<longrightarrow> map_Completion AppError.code (parseSupabaseError now err ctx)
                  = Returns AppErrorCode.INVALID_CREDENTIALS)
         \<and> (\<not> str_includes m ''Invalid login credentials''
              \<and> (str_includes m ''JWT'' \<or> str_includes m ''token'')
            \<longrightarrow> map_Completion AppError.code (parseSupabaseError now err ctx)
                  = Returns AppErrorCode.SESSION_EXPIRED)
         \<and> (\<not> str_includes m ''Invalid login credentials''
              \<and> \<not> str_includes m ''JWT'' \<and> \<not> str_includes m ''token''
              \<and> getProp err ''code'' = Str ''23505''
            \<longrightarrow> map_Completion AppError.code (parseSupabaseError now err ctx)
                  = Returns DUPLICATE_ENTRY)
         \<and> (\<not> str_includes m ''Invalid login credentials''
              \<and> \<not> str_includes m ''JWT'' \<and> \<not> str_includes m ''token''
              \<and> getProp err ''code'' = Str ''23503''
            \<longrightarrow> map_Completion AppError.code (parseSupabaseError now err ctx)
                  = Returns NOT_FOUND)"
proof (cases "m = []")
  case True
  with assms show ?thesis
    by (simp add: parseSupabaseError_def Let_def new_AppError_def)
next
  case False
  with assms show ?thesis
    by (simp add: parseSupabaseError_def Let_def new_AppError_def)
qed

text \<open>
  The object \<open>{code: "23505", message: "duplicate key"}\<close>, a foreign-key violation,
  and two authentication failures that carry a code.
\<close>

theorem parseSupabaseError_phrase_then_code_witness:
  "map_Completion AppError.code
       (parseSupabaseError ''2024-01-01T00:00:00.000Z''
          (Obj [(''code'', Str ''23505''), (''message'', Str ''duplicate key'')]) None)
     = Returns DUPLICATE_ENTRY
   \<and> map_Completion AppError.code
       (parseSupabaseError ''2024-01-01T00:00:00.000Z''
          (Obj [(''code'', Str ''23503''), (''message'', Str ''violates foreign key constraint'')])
          None)
     = Returns NOT_FOUND
   \<and> map_Completion AppError.code
       (parseSupabaseError ''2024-01-01T00:00:00.000Z''
          (Obj [(''code'', Str ''23505''), (''message'', Str ''Invalid login credentials'')])
          None)
     = Returns AppErrorCode.INVALID_CREDENTIALS
   \<and> map_Completion AppError.code
       (parseSupabaseError ''2024-01-01T00:00:00.000Z''
          (Obj [(''code'', Str ''23503''), (''message'', Str ''JWT expired'')]) None)
     = Returns AppErrorCode.SESSION_EXPIRED
   \<and> \<not> str_includes ''duplicate key'' ''Invalid login credentials''
   \<and> \<not> str_includes ''duplicate key'' ''JWT''
   \<and> \<not> str_includes ''duplicate key'' ''token''
   \<and> str_includes ''JWT expired'' ''JWT''"
  using
    parseSupabaseError_phrase_then_code [of
      "Obj [(''code'', Str ''23505''), (''message'', Str ''duplicate key'')]"
      "''duplicate key''" "''2024-01-01T00:00:00.000Z''" None]
    parseSupabaseError_phrase_then_code [of
      "Obj [(''code'', Str ''23503''), (''message'', Str ''violates foreign key constraint'')]"
      "''violates foreign key constraint''" "''2024-01-01T00:00:00.000Z''" None]
    parseSupabaseError_phrase_then_code [of
      "Obj [(''code'', Str ''23505''), (''message'', Str ''Invalid login credentials'')]"
      "''Invalid login credentials''" "''2024-01-01T00:00:00.000Z''" None]
    parseSupabaseError_phrase_then_code [of
      "Obj [(''code'', Str ''23503''), (''message'', Str ''JWT expired'')]"
      "''JWT expired''" "''2024-01-01T00:00:00.000Z''" None]
  by simp

text \<open>
  Claim C6, as stated: a message that contains \<open>network request failed\<close> yields the
  network kind. It does not when the message also contains \<open>timeout\<close>, which is
  tested first.
\<close>

theorem parseNetworkError_timeout_first:
  "str_includes ''network request failed: timeout'' ''network request failed''
   \<and> map_Completion AppError.code
       (parseNetworkError ''2024-01-01T00:00:00.000Z''
          (Obj [(''message'', Str ''network request failed: timeout'')]) None)
     = Returns AppErrorCode.TIMEOUT_ERROR
   \<and> AppErrorCode.TIMEOUT_ERROR \<noteq> AppErrorCode.NETWORK_ERROR"
  by (simp add: parseNetworkError_def Let_def new_AppError_def)

text \<open>
  Claim C6, amended: for a message string that contains \<open>timeout\<close>,
  \<open>parseNetworkError\<close> returns an error of the timeout kind; for every other message
  string, among them those that contain \<open>Network request failed\<close>, one of the network
  kind. The \<open>AppError\<close> it returns has no \<open>retryable\<close> flag; it is operational in
  every case. The flag belongs to the \<open>NetworkError\<close> of \<open>types/api.ts\<close>, whose
  factory \<open>networkError\<close> sets it to true by default.
\<close>

theorem parseNetworkError_kinds:
  assumes "getProp err ''message'' = Str m"
  shows "(str_includes m ''timeout''
            \<longrightarrow> map_Completion AppError.code (parseNetworkError now err ctx)
                  = Returns AppErrorCode.TIMEOUT_ERROR)
         \<and> (\<not> str_includes m ''timeout''
            \<longrightarrow> map_Completion AppError.code (parseNetworkError now err ctx)
                  = Returns AppErrorCode.NETWORK_ERROR)
         \<and> map_Completion isOperational (parseNetworkError now err ctx) = Returns True
         \<and> ApiError.retryable (networkError now msg None after) = Some True"
  using assms
  by (simp add: parseNetworkError_def Let_def new_AppError_def networkError_AppError_def
        networkError_def)

text \<open>Two thrown errors: a failed request and a timeout.\<close>

theorem parseNetworkError_kinds_witness:
  "getProp (ErrorInstance ''Network request failed'') ''message'' = Str ''Network request failed''
   \<and> \<not> str_includes ''Network request failed'' ''timeout''
   \<and> map_Completion AppError.code
       (parseNetworkError ''2024-01-01T00:00:00.000Z''
          (ErrorInstance ''Network request failed'') None)
     = Returns AppErrorCode.NETWORK_ERROR
   \<and> getProp (ErrorInstance ''timeout of 5000ms exceeded'') ''message''
     = Str ''timeout of 5000ms exceeded''
   \<and> str_includes ''timeout of 5000ms exceeded'' ''timeout''
   \<and> map_Completion AppError.code
       (parseNetworkError ''2024-01-01T00:00:00.000Z''
          (ErrorInstance ''timeout of 5000ms exceeded'') None)
     = Returns AppErrorCode.TIMEOUT_ERROR"
  using parseNetworkError_kinds [of "ErrorInstance ''Network request failed''" "''Network request failed''"
      "''2024-01-01T00:00:00.000Z''" None]
    parseNetworkError_kinds [of "ErrorInstance ''timeout of 5000ms exceeded''" "''timeout of 5000ms exceeded''"
      "''2024-01-01T00:00:00.000Z''" None]
  by simp

section \<open>Properties of the guarded executor\<close>

lemma parseError_AppError: "parseError now ots (AppErrorInstance a) ctx = Inr a"
  by (simp add: parseError_def)

lemma parseError_string:
  "\<exists>e. parseError now ots (Value (Str s)) ctx = Inr e
       \<and> AppError.code e = AppErrorCode.UNKNOWN_ERROR \<and> AppError.message e = s"
  by (simp add: parseError_def new_AppError_def)

lemma parseError_Error:
  "\<exists>e. parseError now ots (Value (ErrorInstance m)) ctx = Inr e
       \<and> AppError.code e = AppErrorCode.UNKNOWN_ERROR \<and> AppError.message e = m
       \<and> originalError e = Some (ErrorInstance m)"
  by (simp add: parseError_def new_AppError_def)

lemma parseError_object_message:
  "hasMessage v \<Longrightarrow> stringOf ots (getProp v ''message'') = Inr m
     \<Longrightarrow> \<exists>e. parseError now ots (Value v) ctx = Inr e
            \<and> AppError.code e = AppErrorCode.UNKNOWN_ERROR \<and> AppError.message e = m
            \<and> originalData (metadata e) = Some v"
  by (cases v) (simp_all add: parseError_def new_AppError_def)

lemma parseError_object_throws:
  "hasMessage v \<Longrightarrow> stringOf ots (getProp v ''message'') = Inl t
     \<Longrightarrow> parseError now ots (Value v) ctx = Inl t"
  by (cases v) (simp_all add: parseError_def)

lemma parseError_other:
  "\<not> hasMessage v \<Longrightarrow> (\<forall>s. v \<noteq> Str s) \<Longrightarrow> (\<forall>m. v \<noteq> ErrorInstance m)
     \<Longrightarrow> \<exists>e. parseError now ots (Value v) ctx = Inr e
            \<and> AppError.code e = AppErrorCode.UNKNOWN_ERROR
            \<and> AppError.message e = ''An unknown error occurred''
            \<and> originalData (metadata e) = Some v"
  by (cases v) (simp_all add: parseError_def new_AppError_def)

lemma handleError_stores:
  "parseError now ots thrown (opt_context options) = Inr e \<Longrightarrow> onError options = None
     \<Longrightarrow> fst (handleError now ots thrown options st) = None
        \<and> error (snd (handleError now ots thrown options st)) = Some e
        \<and> hasError (snd (handleError now ots thrown options st))
        \<and> data (snd (handleError now ots thrown options st)) = data st"
  by (simp add: handleError_def Let_def showErrorAlert_def)

lemma handleError_throws:
  "parseError now ots thrown (opt_context options) = Inl t
     \<Longrightarrow> handleError now ots thrown options st = (Some t, st)"
  by (simp add: handleError_def)

lemma execute_rejected:
  "operation args = Rejected thrown
     \<Longrightarrow> execute now ots operation options args st
         = (let r = handleError now ots thrown
                  \<lparr> showAlert = Some (orDefault (showAlert options) False),
                    logError = None, opt_context = opt_context options, onError = None,
                    retryable = Some (orDefault (retryable options) True) \<rparr>
                  (clearError (st\<lparr> loading := True \<rparr>))
            in (fst r, (snd r)\<lparr> loading := False \<rparr>))"
  by (simp add: execute_def Let_def)

lemma execute_callback_throws:
  "operation args = Resolved result \<Longrightarrow> onSuccess options = Some f
     \<Longrightarrow> f result = Some thrown
     \<Longrightarrow> execute now ots operation options args st
         = (let r = handleError now ots thrown
                  \<lparr> showAlert = Some (orDefault (showAlert options) False),
                    logError = None, opt_context = opt_context options, onError = None,
                    retryable = Some (orDefault (retryable options) True) \<rparr>
                  ((clearError (st\<lparr> loading := True \<rparr>))\<lparr> data := Some result \<rparr>)
            in (fst r, (snd r)\<lparr> loading := False \<rparr>))"
  by (simp add: execute_def Let_def)

lemma execute_succeeds:
  "operation args = Resolved result
     \<Longrightarrow> onSuccess options = None \<or> (\<exists>f. onSuccess options = Some f \<and> f result = None)
     \<Longrightarrow> execute now ots operation options args st
         = (None, (clearError (st\<lparr> loading := True \<rparr>))
                    \<lparr> data := Some result, loading := False \<rparr>)"
  by (auto simp add: execute_def Let_def)

text \<open>
  Claim C3, as stated: when the operation succeeds, its value is stored and the error
  state remains clear. It does not remain clear when the \<open>onSuccess\<close> callback
  throws: the operation yields 42, the callback throws \<open>late\<close>, and the state holds
  both the data 42 and an error with the message \<open>late\<close>.
\<close>

theorem execute_onSuccess_throws:
  "data (snd (execute ''2024-01-01T00:00:00.000Z'' (\<lambda>v. Inr ''[object Object]'')
            (\<lambda>u :: unit. Resolved (42 :: nat))
            (noOptions\<lparr> onSuccess := Some (\<lambda>r. Some (Value (Str ''late''))) \<rparr>) ()
            initialState))
     = Some 42
   \<and> hasError (snd (execute ''2024-01-01T00:00:00.000Z'' (\<lambda>v. Inr ''[object Object]'')
            (\<lambda>u :: unit. Resolved (42 :: nat))
            (noOptions\<lparr> onSuccess := Some (\<lambda>r. Some (Value (Str ''late''))) \<rparr>) ()
            initialState))
   \<and> map_option AppError.message
       (error (snd (execute ''2024-01-01T00:00:00.000Z'' (\<lambda>v. Inr ''[object Object]'')
            (\<lambda>u :: unit. Resolved (42 :: nat))
            (noOptions\<lparr> onSuccess := Some (\<lambda>r. Some (Value (Str ''late''))) \<rparr>) ()
            initialState)))
     = Some ''late''"
  by (simp add: execute_def Let_def handleError_def parseError_def new_AppError_def
        noOptions_def initialState_def clearError_def orDefault_def)

text \<open>
  Claim C3, amended. When the operation throws the string \<open>boom\<close>, \<open>execute\<close>
  does not reject, and the stored error has the unknown kind and the message \<open>boom\<close>.
  More generally, whatever the \<open>try\<close> block throws, be it the operation or the
  \<open>onSuccess\<close> callback after the value of the operation has been stored, is
  normalized by \<open>parseError\<close> and stored as the current error without being
  re-raised. An \<open>AppError\<close> is stored as it is; an \<open>Error\<close> or a string gives the
  unknown kind with its message; an object with a \<open>message\<close> property gives the
  unknown kind with \<open>String(message)\<close>; any other value gives the unknown kind with
  the message \<open>An unknown error occurred\<close>. Only a value that \<open>String(message)\<close>
  throws while an object is normalized escapes, and then no error is stored. When the
  operation succeeds its value is stored, and the error state is clear if there is no
  \<open>onSuccess\<close> callback or the callback returns.
\<close>

theorem execute_guarded:
  fixes now :: string and objectToString :: "JsValue \<Rightarrow> Thrown + string"
    and operation :: "'args \<Rightarrow> 'a Settled" and options :: "'a UseAsyncOperationOptions"
    and args :: 'args and st :: "'a HookState"
  defines "after \<equiv> execute now objectToString operation options args st"
  shows
    "(operation args = Rejected (Value (Str ''boom''))
        \<longrightarrow> fst after = None \<and> hasError (snd after)
            \<and> map_option AppError.code (error (snd after)) = Some AppErrorCode.UNKNOWN_ERROR
            \<and> map_option AppError.message (error (snd after)) = Some ''boom'')
     \<and> (operation args = Rejected thrown
          \<and> parseError now objectToString thrown (opt_context options) = Inr e
        \<longrightarrow> fst after = None \<and> error (snd after) = Some e \<and> hasError (snd after)
            \<and> data (snd after) = data st)
     \<and> (operation args = Resolved result
          \<and> (onSuccess options = None
              \<or> (\<exists>f. onSuccess options = Some f \<and> f result = None))
        \<longrightarrow> fst after = None \<and> data (snd after) = Some result
            \<and> error (snd after) = None \<and> \<not> hasError (snd after))
     \<and> (operation args = Resolved result \<and> onSuccess options = Some callback
          \<and> callback result = Some thrown
          \<and> parseError now objectToString thrown (opt_context options) = Inr e
        \<longrightarrow> fst after = None \<and> data (snd after) = Some result
            \<and> error (snd after) = Some e \<and> hasError (snd after))
     \<and> ((operation args = Rejected thrown
           \<or> (operation args = Resolved result \<and> onSuccess options = Some callback
               \<and> callback result = Some thrown))
          \<and> parseError now objectToString thrown (opt_context options) = Inl escaped
        \<longrightarrow> fst after = Some escaped \<and> error (snd after) = None
            \<and> \<not> hasError (snd after))
     \<and> parseError now objectToString (AppErrorInstance a) ctx = Inr a
     \<and> (\<exists>e. parseError now objectToString (Value (Str s)) ctx = Inr e
            \<and> AppError.code e = AppErrorCode.UNKNOWN_ERROR \<and> AppError.message e = s)
     \<and> (\<exists>e. parseError now objectToString (Value (ErrorInstance m)) ctx = Inr e
            \<and> AppError.code e = AppErrorCode.UNKNOWN_ERROR \<and> AppError.message e = m
            \<and> originalError e = Some (ErrorInstance m))
     \<and> (hasMessage v \<and> stringOf objectToString (getProp v ''message'') = Inr m
        \<longrightarrow> (\<exists>e. parseError now objectToString (Value v) ctx = Inr e
              \<and> AppError.code e = AppErrorCode.UNKNOWN_ERROR \<and> AppError.message e = m
              \<and> originalData (metadata e) = Some v))
     \<and> (hasMessage v \<and> stringOf objectToString (getProp v ''message'') = Inl escaped
        \<longrightarrow> parseError now objectToString (Value v) ctx = Inl escaped)
     \<and> (\<not> hasMessage v \<and> (\<forall>s. v \<noteq> Str s) \<and> (\<forall>m. v \<noteq> ErrorInstance m)
        \<longrightarrow> (\<exists>e. parseError now objectToString (Value v) ctx = Inr e
              \<and> AppError.code e = AppErrorCode.UNKNOWN_ERROR
              \<and> AppError.message e = ''An unknown error occurred''
              \<and> originalData (metadata e) = Some v))"
proof (intro conjI)
  show "operation args = Rejected (Value (Str ''boom''))
        \<longrightarrow> fst after = None \<and> hasError (snd after)
            \<and> map_option AppError.code (error (snd after)) = Some AppErrorCode.UNKNOWN_ERROR
            \<and> map_option AppError.message (error (snd after)) = Some ''boom''"
    unfolding after_def
    by (simp add: execute_rejected Let_def handleError_def parseError_def new_AppError_def
          showErrorAlert_def)
  show "operation args = Rejected thrown
          \<and> parseError now objectToString thrown (opt_context options) = Inr e
        \<longrightarrow> fst after = None \<and> error (snd after) = Some e \<and> hasError (snd after)
            \<and> data (snd after) = data st"
    unfolding after_def
    by (simp add: execute_rejected Let_def handleError_stores clearError_def)
  show "operation args = Resolved result
          \<and> (onSuccess options = None
              \<or> (\<exists>f. onSuccess options = Some f \<and> f result = None))
        \<longrightarrow> fst after = None \<and> data (snd after) = Some result
            \<and> error (snd after) = None \<and> \<not> hasError (snd after)"
    unfolding after_def
    by (auto simp add: execute_succeeds clearError_def)
  show "operation args = Resolved result \<and> onSuccess options = Some callback
          \<and> callback result = Some thrown
          \<and> parseError now objectToString thrown (opt_context options) = Inr e
        \<longrightarrow> fst after = None \<and> data (snd after) = Some result
            \<and> error (snd after) = Some e \<and> hasError (snd after)"
    unfolding after_def
    by (simp add: execute_callback_throws Let_def handleError_stores)
  show "(operation args = Rejected thrown
           \<or> (operation args = Resolved result \<and> onSuccess options = Some callback
               \<and> callback result = Some thrown))
          \<and> parseError now objectToString thrown (opt_context options) = Inl escaped
        \<longrightarrow> fst after = Some escaped \<and> error (snd after) = None
            \<and> \<not> hasError (snd after)"
    unfolding after_def
    by (auto simp add: execute_rejected execute_callback_throws Let_def handleError_throws
          clearError_def)
  show "parseError now objectToString (AppErrorInstance a) ctx = Inr a"
    by (rule parseError_AppError)
  show "\<exists>e. parseError now objectToString (Value (Str s)) ctx = Inr e
            \<and> AppError.code e = AppErrorCode.UNKNOWN_ERROR \<and> AppError.message e = s"
    by (rule parseError_string)
  show "\<exists>e. parseError now objectToString (Value (ErrorInstance m)) ctx = Inr e
            \<and> AppError.code e = AppErrorCode.UNKNOWN_ERROR \<and> AppError.message e = m
            \<and> originalError e = Some (ErrorInstance m)"
    by (rule parseError_Error)
  show "hasMessage v \<and> stringOf objectToString (getProp v ''message'') = Inr m
        \<longrightarrow> (\<exists>e. parseError now objectToString (Value v) ctx = Inr e
              \<and> AppError.code e = AppErrorCode.UNKNOWN_ERROR \<and> AppError.message e = m
              \<and> originalData (metadata e) = Some v)"
    using parseError_object_message by blast
  show "hasMessage v \<and> stringOf objectToString (getProp v ''message'') = Inl escaped
        \<longrightarrow> parseError now objectToString (Value v) ctx = Inl escaped"
    using parseError_object_throws by blast
  show "\<not> hasMessage v \<and> (\<forall>s. v \<noteq> Str s) \<and> (\<forall>m. v \<noteq> ErrorInstance m)
        \<longrightarrow> (\<exists>e. parseError now objectToString (Value v) ctx = Inr e
              \<and> AppError.code e = AppErrorCode.UNKNOWN_ERROR
              \<and> AppError.message e = ''An unknown error occurred''
              \<and> originalData (metadata e) = Some v)"
    using parseError_other by blast
qed

text \<open>
  From the initial state and without options: an operation that throws \<open>boom\<close>, one
  that yields 42 (without a callback and with one that throws), and one that throws an
  object whose message cannot be converted to a string.
\<close>

theorem execute_guarded_witness:
  "fst (execute ''2024-01-01T00:00:00.000Z'' (\<lambda>v. Inr ''[object Object]'')
          (\<lambda>u :: unit. (Rejected (Value (Str ''boom'')) :: nat Settled)) noOptions ()
          initialState)
     = None
   \<and> map_option AppError.code
       (error (snd (execute ''2024-01-01T00:00:00.000Z'' (\<lambda>v. Inr ''[object Object]'')
          (\<lambda>u :: unit. (Rejected (Value (Str ''boom'')) :: nat Settled)) noOptions ()
          initialState)))
     = Some AppErrorCode.UNKNOWN_ERROR
   \<and> map_option AppError.message
       (error (snd (execute ''2024-01-01T00:00:00.000Z'' (\<lambda>v. Inr ''[object Object]'')
          (\<lambda>u :: unit. (Rejected (Value (Str ''boom'')) :: nat Settled)) noOptions ()
          initialState)))
     = Some ''boom''
   \<and> data (snd (execute ''2024-01-01T00:00:00.000Z'' (\<lambda>v. Inr ''[object Object]'')
          (\<lambda>u :: unit. Resolved (42 :: nat)) noOptions () initialState))
     = Some 42
   \<and> error (snd (execute ''2024-01-01T00:00:00.000Z'' (\<lambda>v. Inr ''[object Object]'')
          (\<lambda>u :: unit. Resolved (42 :: nat)) noOptions () initialState))
     = None
   \<and> error (snd (execute ''2024-01-01T00:00:00.000Z'' (\<lambda>v. Inr ''[object Object]'')
          (\<lambda>u :: unit. Resolved (42 :: nat))
          (noOptions\<lparr> onSuccess := Some (\<lambda>r. Some (Value (Str ''late''))) \<rparr>) ()
          initialState))
     = Some (new_AppError ''2024-01-01T00:00:00.000Z'' ''late'' AppErrorCode.UNKNOWN_ERROR
               ERROR True (Some noMetadata) None)
   \<and> fst (execute ''2024-01-01T00:00:00.000Z''
          (\<lambda>v. Inl (Value (ErrorInstance ''Cannot convert object to primitive value'')))
          (\<lambda>u :: unit. (Rejected (Value (Obj [(''message'', Obj [])])) :: nat Settled))
          noOptions () initialState)
     = Some (Value (ErrorInstance ''Cannot convert object to primitive value''))
   \<and> map_sum id AppError.message
       (parseError ''2024-01-01T00:00:00.000Z'' (\<lambda>v. Inr ''[object Object]'')
          (Value (Obj [(''message'', Num ''404'')])) None)
     = Inr ''404''
   \<and> map_sum id AppError.message
       (parseError ''2024-01-01T00:00:00.000Z'' (\<lambda>v. Inr ''[object Object]'')
          (Value Null) None)
     = Inr ''An unknown error occurred''"
proof -
  let ?T = "''2024-01-01T00:00:00.000Z''"
  let ?plain = "\<lambda>v :: JsValue. (Inr ''[object Object]'' :: Thrown + string)"
  let ?fails = "\<lambda>v :: JsValue.
    (Inl (Value (ErrorInstance ''Cannot convert object to primitive value'')) :: Thrown + string)"
  have opts: "opt_context (noOptions :: nat UseAsyncOperationOptions) = None"
    "onSuccess (noOptions :: nat UseAsyncOperationOptions) = None"
    by (simp_all add: noOptions_def)
  have boom: "parseError ?T ?plain (Value (Str ''boom'')) None
      = Inr (new_AppError ?T ''boom'' AppErrorCode.UNKNOWN_ERROR ERROR True
               (Some noMetadata) None)"
    by (simp add: parseError_def noMetadata_def)
  have late: "parseError ?T ?plain (Value (Str ''late'')) None
      = Inr (new_AppError ?T ''late'' AppErrorCode.UNKNOWN_ERROR ERROR True
               (Some noMetadata) None)"
    by (simp add: parseError_def noMetadata_def)
  have esc: "parseError ?T ?fails (Value (Obj [(''message'', Obj [])])) None
      = Inl (Value (ErrorInstance ''Cannot convert object to primitive value''))"
    by (simp add: parseError_def)
  note w1 = execute_guarded [where now = ?T and objectToString = ?plain
      and operation = "\<lambda>u :: unit. (Rejected (Value (Str ''boom'')) :: nat Settled)"
      and options = noOptions and args = "()" and st = initialState
      and thrown = "Value (Str ''boom'')"
      and e = "new_AppError ?T ''boom'' AppErrorCode.UNKNOWN_ERROR ERROR True
                 (Some noMetadata) None"
      and v = "Obj [(''message'', Num ''404'')]" and m = "''404''" and ctx = None]
  note w2 = execute_guarded [where now = ?T and objectToString = ?plain
      and operation = "\<lambda>u :: unit. Resolved (42 :: nat)"
      and options = noOptions and args = "()" and st = initialState and result = 42
      and v = Null and ctx = None]
  note w3 = execute_guarded [where now = ?T and objectToString = ?plain
      and operation = "\<lambda>u :: unit. Resolved (42 :: nat)"
      and options = "noOptions\<lparr> onSuccess := Some (\<lambda>r. Some (Value (Str ''late''))) \<rparr>"
      and args = "()" and st = initialState and result = 42
      and callback = "\<lambda>r. Some (Value (Str ''late''))" and thrown = "Value (Str ''late'')"
      and e = "new_AppError ?T ''late'' AppErrorCode.UNKNOWN_ERROR ERROR True
                 (Some noMetadata) None"]
  note w4 = execute_guarded [where now = ?T and objectToString = ?fails
      and operation = "\<lambda>u :: unit.
        (Rejected (Value (Obj [(''message'', Obj [])])) :: nat Settled)"
      and options = noOptions and args = "()" and st = initialState
      and thrown = "Value (Obj [(''message'', Obj [])])"
      and escaped = "Value (ErrorInstance ''Cannot convert object to primitive value'')"]
  have a: "fst (execute ?T ?plain
          (\<lambda>u :: unit. (Rejected (Value (Str ''boom'')) :: nat Settled)) noOptions ()
          initialState) = None
     \<and> map_option AppError.code
       (error (snd (execute ?T ?plain
          (\<lambda>u :: unit. (Rejected (Value (Str ''boom'')) :: nat Settled)) noOptions ()
          initialState))) = Some AppErrorCode.UNKNOWN_ERROR
     \<and> map_option AppError.message
       (error (snd (execute ?T ?plain
          (\<lambda>u :: unit. (Rejected (Value (Str ''boom'')) :: nat Settled)) noOptions ()
          initialState))) = Some ''boom''"
    using w1 by simp
  have b: "data (snd (execute ?T ?plain
          (\<lambda>u :: unit. Resolved (42 :: nat)) noOptions () initialState)) = Some 42
     \<and> error (snd (execute ?T ?plain
          (\<lambda>u :: unit. Resolved (42 :: nat)) noOptions () initialState)) = None"
    using w2 opts by simp
  have c: "error (snd (execute ?T ?plain
          (\<lambda>u :: unit. Resolved (42 :: nat))
          (noOptions\<lparr> onSuccess := Some (\<lambda>r. Some (Value (Str ''late''))) \<rparr>) ()
          initialState))
     = Some (new_AppError ?T ''late'' AppErrorCode.UNKNOWN_ERROR ERROR True
               (Some noMetadata) None)"
    using w3 late opts by (simp add: noOptions_def)
  have d: "fst (execute ?T ?fails
          (\<lambda>u :: unit. (Rejected (Value (Obj [(''message'', Obj [])])) :: nat Settled))
          noOptions () initialState)
     = Some (Value (ErrorInstance ''Cannot convert object to primitive value''))"
    using w4 esc opts by simp
  have e: "map_sum id AppError.message
       (parseError ?T ?plain (Value (Obj [(''message'', Num ''404'')])) None) = Inr ''404''"
    by (simp add: parseError_def new_AppError_def)
  have f: "map_sum id AppError.message (parseError ?T ?plain (Value Null) None)
     = Inr ''An unknown error occurred''"
    by (simp add: parseError_def new_AppError_def)
  from a b c d e f show ?thesis by blast
qed

end
